theory Spec2Isabelle
  imports Complex_Main "HOL-Library.Sublist" "HOL-Library.Option_ord" "HOL-Library.Product_Lexorder"
    "HOL-Library.Char_ord" "HOL-Library.List_Lexorder" "HOL-Library.Multiset"
begin

section \<open>Configuration\<close>

text \<open>
  The module constants of \<^verbatim>\<open>streamlit_ohlcv_excel.py\<close>. \<^verbatim>\<open>YF_SUFFIX\<close> is the
  empty string in the source; the functions that read it take it as an explicit
  argument, so that they can be studied for every configured value.
\<close>

definition LOOKBACK_DAYS :: nat where
  "LOOKBACK_DAYS = 90"

definition YF_SUFFIX :: string where
  "YF_SUFFIX = ''''"

definition COLS :: "string list" where
  "COLS = [''Date'', ''Open'', ''High'', ''Low'', ''Close'', ''Adj Close'', ''Volume'']"

section \<open>SymbolMapper\<close>

text \<open>\<^verbatim>\<open>t.endswith(s)\<close>: \<open>s\<close> is a suffix of \<open>t\<close>.\<close>

definition endswith :: "string \<Rightarrow> string \<Rightarrow> bool" where
  "endswith t s = suffix s t"

text \<open>
  \<^verbatim>\<open>return f"{t}{YF_SUFFIX}" if (YF_SUFFIX and not t.endswith(YF_SUFFIX)) else t\<close>,
  with the module constant as the first argument.
\<close>

definition to_yf_symbol :: "string \<Rightarrow> string \<Rightarrow> string" where
  "to_yf_symbol sfx t = (if sfx \<noteq> [] \<and> \<not> endswith t sfx then t @ sfx else t)"

section \<open>Exceptions\<close>

text \<open>
  Every \<^verbatim>\<open>raise\<close> of the program and of the library calls it makes is a value of
  this type; a function that can raise returns \<open>pyexn + 'a\<close>, with \<open>Inl\<close> the exception.
\<close>

datatype pyexn =
    RuntimeError string
  | SyntaxError
  | ValueError
  | JSONDecodeError
  | KeyError
  | IndexError
  | TypeError
  | FetchError

section \<open>Data frames\<close>

text \<open>
  A pandas \<^verbatim>\<open>DataFrame\<close>: the name of its index, its column labels, and its rows, each
  row being the index entry with one cell per column. A cell is \<open>None\<close> when pandas
  counts it as null (\<^verbatim>\<open>NaN\<close>, \<^verbatim>\<open>NaT\<close>, \<^verbatim>\<open>pd.NA\<close>, \<^verbatim>\<open>None\<close>) and \<open>Some v\<close> otherwise; the
  program never inspects \<open>v\<close> beyond comparing dates when it sorts, so dates and prices
  share one ordered type \<open>'a\<close>. The index entries have type \<open>'i\<close>: cells for the time
  index of a downloaded series, row numbers for the \<^verbatim>\<open>RangeIndex\<close> that
  \<^verbatim>\<open>reset_index\<close> installs. The label type \<open>'l\<close> is \<open>string\<close> for single-level columns
  and a pair (level 0, level 1) for the two-level columns of a multi-symbol download.
\<close>

record ('i, 'l, 'a) frame =
  index_name :: "string option"
  columns :: "'l list"
  rows :: "('i \<times> 'a option list) list"

type_synonym 'a series = "('a option, string, 'a) frame"

type_synonym 'a table = "(nat, string, 'a) frame"

text \<open>
  The well-formed frames: labels are distinct and every row has one cell per column.
\<close>

definition wf_frame :: "('i, 'l, 'a) frame \<Rightarrow> bool" where
  "wf_frame f = (distinct (columns f)
     \<and> list_all (\<lambda>r. length (snd r) = length (columns f)) (rows f))"

text \<open>\<^verbatim>\<open>isinstance(df.columns, pd.MultiIndex)\<close> is the constructor of the value.\<close>

datatype 'a dataframe =
    SingleLevel "'a series"
  | MultiLevel "('a option, string \<times> string, 'a) frame"

text \<open>\<^verbatim>\<open>df.empty\<close>: true when any axis has length 0, so with no row or with no column.\<close>

definition frame_empty :: "('i, 'l, 'a) frame \<Rightarrow> bool" where
  "frame_empty f = (rows f = [] \<or> columns f = [])"

fun df_empty :: "'a dataframe \<Rightarrow> bool" where
  "df_empty (SingleLevel f) = frame_empty f"
| "df_empty (MultiLevel f) = frame_empty f"

text \<open>
  \<^verbatim>\<open>df.columns.get_level_values(n)\<close> on two-level columns; pandas raises
  \<^verbatim>\<open>IndexError\<close> for a level the index does not have.
\<close>

definition get_level_values :: "(string \<times> string) list \<Rightarrow> nat \<Rightarrow> pyexn + string list" where
  "get_level_values cols n =
     (if n = 0 then Inr (map fst cols)
      else if n = 1 then Inr (map snd cols)
      else Inl IndexError)"

text \<open>
  The projection both lookups on two-level columns perform: the columns whose label
  satisfies \<open>P\<close>, in their order, relabelled by the other level.
\<close>

definition project_columns ::
  "('l \<Rightarrow> bool) \<Rightarrow> ('l \<Rightarrow> 'm) \<Rightarrow> ('i, 'l, 'a) frame \<Rightarrow> ('i, 'm, 'a) frame" where
  "project_columns P relabel f =
     \<lparr>index_name = index_name f,
      columns = map relabel (filter P (columns f)),
      rows = map (\<lambda>(i, cells). (i, map snd (filter (\<lambda>lc. P (fst lc)) (zip (columns f) cells))))
               (rows f)\<rparr>"

text \<open>
  \<^verbatim>\<open>df[key]\<close> on two-level columns: the columns whose level-0 label is \<open>key\<close>, labelled
  by level 1; \<^verbatim>\<open>KeyError\<close> when there is none.
\<close>

definition getitem_level0 ::
  "('i, string \<times> string, 'a) frame \<Rightarrow> string \<Rightarrow> pyexn + ('i, string, 'a) frame" where
  "getitem_level0 f key =
     (if key \<in> set (map fst (columns f))
      then Inr (project_columns (\<lambda>l. fst l = key) snd f)
      else Inl KeyError)"

text \<open>
  \<^verbatim>\<open>df.xs(key, axis=1, level=1)\<close>: the columns whose level-1 label is \<open>key\<close>, labelled
  by level 0; \<^verbatim>\<open>KeyError\<close> when there is none.
\<close>

definition xs_level1 ::
  "('i, string \<times> string, 'a) frame \<Rightarrow> string \<Rightarrow> pyexn + ('i, string, 'a) frame" where
  "xs_level1 f key =
     (if key \<in> set (map snd (columns f))
      then Inr (project_columns (\<lambda>l. snd l = key) fst f)
      else Inl KeyError)"

text \<open>The cell of a row under the column labelled \<open>c\<close>.\<close>

definition cell_at :: "'l list \<Rightarrow> 'a option list \<Rightarrow> 'l \<Rightarrow> 'a option" where
  "cell_at cols cells c = (case map_of (zip cols cells) c of Some v \<Rightarrow> v | None \<Rightarrow> None)"

text \<open>\<^verbatim>\<open>df[c]\<close> for one label: the column, or \<^verbatim>\<open>KeyError\<close>.\<close>

definition getitem_column :: "('i, 'l, 'a) frame \<Rightarrow> 'l \<Rightarrow> pyexn + 'a option list" where
  "getitem_column f c =
     (if c \<in> set (columns f)
      then Inr (map (\<lambda>(i, cells). cell_at (columns f) cells c) (rows f))
      else Inl KeyError)"

text \<open>
  \<^verbatim>\<open>df[c] = vals\<close> for a label that is not yet a column, which is how the program uses
  it (both assignments are guarded by \<^verbatim>\<open>c not in df.columns\<close>): the column is appended
  after the existing ones.
\<close>

definition setitem_new :: "('i, 'l, 'a) frame \<Rightarrow> 'l \<Rightarrow> 'a option list \<Rightarrow> ('i, 'l, 'a) frame" where
  "setitem_new f c vals =
     f\<lparr>columns := columns f @ [c],
       rows := map (\<lambda>((i, cells), v). (i, cells @ [v])) (zip (rows f) vals)\<rparr>"

text \<open>\<^verbatim>\<open>df[names]\<close> for a list of labels: those columns in that order, or \<^verbatim>\<open>KeyError\<close>.\<close>

definition getitem_list :: "('i, 'l, 'a) frame \<Rightarrow> 'l list \<Rightarrow> pyexn + ('i, 'l, 'a) frame" where
  "getitem_list f names =
     (if set names \<subseteq> set (columns f)
      then Inr (f\<lparr>columns := names,
                  rows := map (\<lambda>(i, cells). (i, map (cell_at (columns f) cells) names)) (rows f)\<rparr>)
      else Inl KeyError)"

text \<open>\<^verbatim>\<open>df.dropna(how="any")\<close>: the rows without a null cell.\<close>

definition dropna :: "('i, 'l, 'a) frame \<Rightarrow> ('i, 'l, 'a) frame" where
  "dropna f = f\<lparr>rows := filter (\<lambda>(i, cells). None \<notin> set cells) (rows f)\<rparr>"

text \<open>
  \<^verbatim>\<open>df.reset_index()\<close>: the index becomes the first column, labelled by the name of the
  index, or \<^verbatim>\<open>index\<close> (\<^verbatim>\<open>level_0\<close> when \<^verbatim>\<open>index\<close> is taken) for an unnamed index;
  pandas raises \<^verbatim>\<open>ValueError\<close> when that label is already a column. The new index
  numbers the rows.
\<close>

definition reset_index :: "'a series \<Rightarrow> pyexn + 'a table" where
  "reset_index f =
     (let name = (case index_name f of
                    Some n \<Rightarrow> n
                  | None \<Rightarrow> if ''index'' \<in> set (columns f) then ''level_0'' else ''index'')
      in if name \<in> set (columns f) then Inl ValueError
         else Inr \<lparr>index_name = None,
                   columns = name # columns f,
                   rows = enumerate 0 (map (\<lambda>(i, cells). i # cells) (rows f))\<rparr>)"

text \<open>\<^verbatim>\<open>df.reset_index(drop=True)\<close>: the rows are numbered afresh.\<close>

definition reset_index_drop :: "('i, 'l, 'a) frame \<Rightarrow> (nat, 'l, 'a) frame" where
  "reset_index_drop f =
     \<lparr>index_name = None, columns = columns f, rows = enumerate 0 (map snd (rows f))\<rparr>"

text \<open>\<^verbatim>\<open>df.rename(columns={old: new})\<close>.\<close>

definition rename_columns :: "('i, 'l, 'a) frame \<Rightarrow> 'l \<Rightarrow> 'l \<Rightarrow> ('i, 'l, 'a) frame" where
  "rename_columns f old new = f\<lparr>columns := map (\<lambda>c. if c = old then new else c) (columns f)\<rparr>"

text \<open>
  \<^verbatim>\<open>df.sort_values(c)\<close>: ascending, nulls last; \<^verbatim>\<open>KeyError\<close> for an unknown label. The
  model keeps rows with equal keys in their order; pandas' default sort does not
  promise that, and nothing below depends on it.
\<close>

definition na_last :: "'a option \<Rightarrow> bool \<times> 'a option" where
  "na_last c = (c = None, c)"

definition sort_values ::
  "('i, 'l, 'a::linorder) frame \<Rightarrow> 'l \<Rightarrow> pyexn + ('i, 'l, 'a) frame" where
  "sort_values f c =
     (if c \<in> set (columns f)
      then Inr (f\<lparr>rows := sort_key (\<lambda>(i, cells). na_last (cell_at (columns f) cells c)) (rows f)\<rparr>)
      else Inl KeyError)"

section \<open>Strings\<close>


definition lower_char :: "char \<Rightarrow> char" where
  "lower_char c =
     (case map_of (zip ''ABCDEFGHIJKLMNOPQRSTUVWXYZ'' ''abcdefghijklmnopqrstuvwxyz'') c of
        Some l \<Rightarrow> l | None \<Rightarrow> c)"

definition upper_char :: "char \<Rightarrow> char" where
  "upper_char c =
     (case map_of (zip ''abcdefghijklmnopqrstuvwxyz'' ''ABCDEFGHIJKLMNOPQRSTUVWXYZ'') c of
        Some u \<Rightarrow> u | None \<Rightarrow> c)"

definition lower :: "string \<Rightarrow> string" where
  "lower s = map lower_char s"

definition upper :: "string \<Rightarrow> string" where
  "upper s = map upper_char s"

definition isspace :: "char \<Rightarrow> bool" where
  "isspace c = (c \<in> set [CHR 0x09, CHR 0x0A, CHR 0x0B, CHR 0x0C, CHR 0x0D,
                           CHR 0x1C, CHR 0x1D, CHR 0x1E, CHR 0x1F, CHR 0x20])"

definition strip :: "string \<Rightarrow> string" where
  "strip s = rev (dropWhile isspace (rev (dropWhile isspace s)))"

text \<open>\<^verbatim>\<open>s.replace(a, b)\<close> for single characters.\<close>

definition replace :: "string \<Rightarrow> char \<Rightarrow> char \<Rightarrow> string" where
  "replace s a b = map (\<lambda>c. if c = a then b else c) s"

definition squote :: char where
  "squote = CHR 0x27"

definition dquote :: char where
  "dquote = CHR 0x22"

definition backslash :: char where
  "backslash = CHR 0x5C"

text \<open>
  \<^verbatim>\<open>re.search(r"\[.*\]", txt, re.S)\<close>: the match starts at the first \<^verbatim>\<open>[\<close> and, the
  star being greedy and the dot matching every character, ends at the last \<^verbatim>\<open>]\<close> after
  it; there is no match when no \<^verbatim>\<open>]\<close> follows the first \<^verbatim>\<open>[\<close>.
\<close>

definition re_search_brackets :: "string \<Rightarrow> string option" where
  "re_search_brackets txt =
     (case dropWhile (\<lambda>c. c \<noteq> CHR ''['') txt of
        [] \<Rightarrow> None
      | b # after \<Rightarrow>
          (case rev (dropWhile (\<lambda>c. c \<noteq> CHR '']'') (rev after)) of
             [] \<Rightarrow> None
           | body \<Rightarrow> Some (b # body)))"

section \<open>Python values\<close>

text \<open>
  The values the two parsers of a ticker list can return. Strings, integers, \<^verbatim>\<open>None\<close>,
  the two booleans and lists are values of their own. An object of any other type (a
  float, a tuple, a dictionary, a set, \<^verbatim>\<open>bytes\<close>) is given by what the program can
  observe of it: its \<^verbatim>\<open>repr\<close>, which for these types is also its \<^verbatim>\<open>str\<close>; its truth value;
  and the elements it yields when it is iterated, or \<open>None\<close> when it cannot be iterated.
  So the float \<^verbatim>\<open>0.1\<close> is \<open>PyObject ''0.1'' True None\<close>.
\<close>

datatype pyval =
    PyStr string
  | PyInt int
  | PyNone
  | PyBool bool
  | PyList "pyval list"
  | PyObject string bool "pyval list option"

fun show_nat :: "nat \<Rightarrow> string" where
  "show_nat n =
     (if n < 10 then [''0123456789'' ! n]
      else show_nat (n div 10) @ [''0123456789'' ! (n mod 10)])"

definition show_int :: "int \<Rightarrow> string" where
  "show_int i = (if i < 0 then CHR ''-'' # show_nat (nat (- i)) else show_nat (nat i))"

text \<open>
  \<^verbatim>\<open>repr\<close> of an ASCII string: between double quotes when the string has a single quote
  and no double quote, between single quotes otherwise; the delimiter and the
  backslash are escaped with a backslash, tab, line feed and carriage return are
  written \<^verbatim>\<open>\t\<close>, \<^verbatim>\<open>\n\<close>, \<^verbatim>\<open>\r\<close>, and every other control character is written
  \<^verbatim>\<open>\x\<close> followed by its two hexadecimal digits.
\<close>

definition hex_digit :: "nat \<Rightarrow> char" where
  "hex_digit n = ''0123456789abcdef'' ! n"

definition repr_char :: "char \<Rightarrow> char \<Rightarrow> string" where
  "repr_char q c =
     (if c = q \<or> c = backslash then [backslash, c]
      else if c = CHR 0x09 then [backslash, CHR ''t'']
      else if c = CHR 0x0A then [backslash, CHR ''n'']
      else if c = CHR 0x0D then [backslash, CHR ''r'']
      else if of_char c < (32 :: nat) \<or> c = CHR 0x7F
      then [backslash, CHR ''x'', hex_digit (of_char c div 16), hex_digit (of_char c mod 16)]
      else [c])"

definition repr_str :: "string \<Rightarrow> string" where
  "repr_str s =
     (let q = (if squote \<in> set s \<and> dquote \<notin> set s then dquote else squote)
      in q # concat (map (repr_char q) s) @ [q])"

fun intersperse :: "string \<Rightarrow> string list \<Rightarrow> string" where
  "intersperse sep [] = []"
| "intersperse sep [x] = x"
| "intersperse sep (x # y # ys) = x @ sep @ intersperse sep (y # ys)"

text \<open>
  \<^verbatim>\<open>repr(v)\<close> and \<^verbatim>\<open>str(v)\<close>: \<^verbatim>\<open>str\<close> is the string itself for a string and \<^verbatim>\<open>repr\<close> for
  everything else.
\<close>

fun py_repr :: "pyval \<Rightarrow> string" where
  "py_repr (PyStr s) = repr_str s"
| "py_repr (PyInt i) = show_int i"
| "py_repr PyNone = ''None''"
| "py_repr (PyBool b) = (if b then ''True'' else ''False'')"
| "py_repr (PyList vs) = ''['' @ intersperse '', '' (map py_repr vs) @ '']''"
| "py_repr (PyObject r t elems) = r"

fun py_str :: "pyval \<Rightarrow> string" where
  "py_str (PyStr s) = s"
| "py_str v = py_repr v"

text \<open>
  The values whose \<^verbatim>\<open>str\<close> is the one above: their strings are ASCII, and no integer
  in them has more than 4300 decimal digits, the length from which CPython 3.11 and
  later refuse, by default, to convert an integer to a string.
\<close>

definition int_max_str_digits :: nat where
  "int_max_str_digits = 4300"


text \<open>\<^verbatim>\<open>isinstance(v, list)\<close>, \<^verbatim>\<open>not v\<close> and the iteration of \<^verbatim>\<open>for t in v\<close>.\<close>

fun isinstance_list :: "pyval \<Rightarrow> bool" where
  "isinstance_list (PyList vs) = True"
| "isinstance_list v = False"

fun truthy :: "pyval \<Rightarrow> bool" where
  "truthy (PyStr s) = (s \<noteq> [])"
| "truthy (PyInt i) = (i \<noteq> 0)"
| "truthy PyNone = False"
| "truthy (PyBool b) = b"
| "truthy (PyList vs) = (vs \<noteq> [])"
| "truthy (PyObject r t elems) = t"

fun py_iter :: "pyval \<Rightarrow> pyexn + pyval list" where
  "py_iter (PyList vs) = Inr vs"
| "py_iter (PyStr s) = Inr (map (\<lambda>c. PyStr [c]) s)"
| "py_iter (PyObject r t (Some vs)) = Inr vs"
| "py_iter v = Inl TypeError"

section \<open>The two library parsers\<close>

text \<open>
  \<^verbatim>\<open>ast.literal_eval\<close> and \<^verbatim>\<open>json.loads\<close> belong to the standard library, not to the
  program: \<open>get_egx_tickers\<close> below takes both as arguments, and what is proved of it
  for every text holds whatever the two functions do.

  Where a run on a given text is computed, or the two functions are compared, what
  they do is taken from a \<^emph>\<open>reading\<close>: a partial function that is \<open>Some (Inr v)\<close> on a
  text for which the library returns \<open>v\<close>, \<open>Some (Inl e)\<close> on a text for which it raises
  \<open>e\<close>, and \<open>None\<close> on a text about which the model says nothing. The readings cover

  \<^item> the atoms and the flat lists \<^verbatim>\<open>[\<close> atom \<^verbatim>\<open>,\<close> ... \<^verbatim>\<open>]\<close> of atoms, which both
    functions return; Python allows a comma after the last element, JSON does not;
  \<^item> an atom is a string, a decimal integer of at most 4300 digits (\<^verbatim>\<open>0\<close>, or digits
    not starting with \<^verbatim>\<open>0\<close>, with an optional \<^verbatim>\<open>-\<close> in front), or one of the words
    \<^verbatim>\<open>None\<close>, \<^verbatim>\<open>True\<close>, \<^verbatim>\<open>False\<close> in Python and \<^verbatim>\<open>null\<close>, \<^verbatim>\<open>true\<close>, \<^verbatim>\<open>false\<close> in JSON;
  \<^item> a string is delimited by double quotes, in Python also by single quotes, and
    holds ASCII characters from the space on, other than the backslash and its
    delimiter;
  \<^item> tokens may be separated by blanks, tabs, line feeds and carriage returns, in
    Python also by form feeds; for Python the text must not start or end with one
    of these (the program strips the text), as indentation matters there;
  \<^item> in Python, an atom or a flat list in which a name (an identifier that is not a
    reserved word) stands for an element: \<^verbatim>\<open>ast.literal_eval\<close> raises \<^verbatim>\<open>ValueError\<close>;
  \<^item> in Python, the empty text, and a text of printable characters and blanks that
    starts with an identifier followed by a single \<^verbatim>\<open>=\<close>: neither is an expression,
    and \<^verbatim>\<open>ast.literal_eval\<close> raises \<^verbatim>\<open>SyntaxError\<close>;
  \<^item> in JSON, a text that starts with \<^verbatim>\<open>[\<close> followed, after blanks, by the end of the
    text or by a character other than \<^verbatim>\<open>]\<close> with which no JSON value starts:
    \<^verbatim>\<open>json.loads\<close> raises \<^verbatim>\<open>JSONDecodeError\<close>.
\<close>

datatype dialect = Python | JSON

datatype token = LBR | RBR | COMMA | ATOM pyval | NAME string

fun quotes :: "dialect \<Rightarrow> char list" where
  "quotes Python = [squote, dquote]"
| "quotes JSON = [dquote]"

fun blanks :: "dialect \<Rightarrow> char list" where
  "blanks Python = [CHR 0x20, CHR 0x09, CHR 0x0A, CHR 0x0D, CHR 0x0C]"
| "blanks JSON = [CHR 0x20, CHR 0x09, CHR 0x0A, CHR 0x0D]"

fun keyword_table :: "dialect \<Rightarrow> (string \<times> pyval) list" where
  "keyword_table Python = [(''None'', PyNone), (''True'', PyBool True), (''False'', PyBool False)]"
| "keyword_table JSON = [(''null'', PyNone), (''true'', PyBool True), (''false'', PyBool False)]"

text \<open>
  The reserved words of Python that are not values (\<^verbatim>\<open>__peg_parser__\<close> is reserved in
  CPython 3.9 only).
\<close>

definition reserved_words :: "string list" where
  "reserved_words =
     [''and'', ''as'', ''assert'', ''async'', ''await'', ''break'', ''class'', ''continue'',
      ''def'', ''del'', ''elif'', ''else'', ''except'', ''finally'', ''for'', ''from'',
      ''global'', ''if'', ''import'', ''in'', ''is'', ''lambda'', ''nonlocal'', ''not'', ''or'',
      ''pass'', ''raise'', ''return'', ''try'', ''while'', ''with'', ''yield'',
      ''__peg_parser__'']"

fun trailing_comma :: "dialect \<Rightarrow> bool" where
  "trailing_comma Python = True"
| "trailing_comma JSON = False"

definition isdigit :: "char \<Rightarrow> bool" where
  "isdigit c = (c \<in> set ''0123456789'')"

definition isword :: "char \<Rightarrow> bool" where
  "isword c = (c \<in> set ''abcdefghijklmnopqrstuvwxyzABCDEFGHIJKLMNOPQRSTUVWXYZ_0123456789'')"

definition isplain :: "char \<Rightarrow> bool" where
  "isplain c = (c \<in> set ''abcdefghijklmnopqrstuvwxyzABCDEFGHIJKLMNOPQRSTUVWXYZ0123456789''
              \<or> c \<in> set '' !#$%&()*+,-./:;<=>?@[]^_`{|}~''
              \<or> c = squote \<or> c = dquote \<or> c = CHR 0x7F)"

definition digit_value :: "char \<Rightarrow> nat" where
  "digit_value c = (case map_of (zip ''0123456789'' [0, 1, 2, 3, 4, 5, 6, 7, 8, 9]) c of
                      Some n \<Rightarrow> n | None \<Rightarrow> 0)"

definition nat_literal :: "string \<Rightarrow> nat option" where
  "nat_literal ds =
     (if ds = [] \<or> \<not> list_all isdigit ds \<or> (hd ds = CHR ''0'' \<and> length ds > 1)
         \<or> length ds > int_max_str_digits
      then None
      else Some (foldl (\<lambda>n c. 10 * n + digit_value c) 0 ds))"

definition int_literal :: "string \<Rightarrow> int option" where
  "int_literal s =
     (case s of
        [] \<Rightarrow> None
      | c # ds \<Rightarrow> if c = CHR ''-'' then map_option (\<lambda>n. - int n) (nat_literal ds)
                  else map_option int (nat_literal s))"

text \<open>
  The tokens of a text, or \<open>None\<close> when the text is outside the grammar. A word that is
  not one of the three values is a name in Python, unless it is reserved.
\<close>

function tokens :: "dialect \<Rightarrow> string \<Rightarrow> token list option" where
  "tokens d [] = Some []"
| "tokens d (c # cs) =
     (if c \<in> set (blanks d) then tokens d cs
      else if c = CHR ''['' then map_option (Cons LBR) (tokens d cs)
      else if c = CHR '']'' then map_option (Cons RBR) (tokens d cs)
      else if c = CHR '','' then map_option (Cons COMMA) (tokens d cs)
      else if c \<in> set (quotes d) then
        (case dropWhile (\<lambda>x. x \<noteq> c) cs of
           [] \<Rightarrow> None
         | q # rest \<Rightarrow>
             if list_all isplain (takeWhile (\<lambda>x. x \<noteq> c) cs)
             then map_option (Cons (ATOM (PyStr (takeWhile (\<lambda>x. x \<noteq> c) cs)))) (tokens d rest)
             else None)
      else if c = CHR ''-'' \<or> isdigit c then
        (case int_literal (c # takeWhile isdigit cs) of
           None \<Rightarrow> None
         | Some i \<Rightarrow> map_option (Cons (ATOM (PyInt i))) (tokens d (dropWhile isdigit cs)))
      else if isword c then
        (case map_of (keyword_table d) (c # takeWhile isword cs) of
           Some v \<Rightarrow> map_option (Cons (ATOM v)) (tokens d (dropWhile isword cs))
         | None \<Rightarrow>
             if d = Python \<and> c # takeWhile isword cs \<notin> set reserved_words
             then map_option (Cons (NAME (c # takeWhile isword cs)))
                    (tokens d (dropWhile isword cs))
             else None)
      else None)"
  by pat_completeness auto
termination
proof (relation "measure (\<lambda>(d, s). length s)")
  fix d :: dialect and c :: char and cs :: string and q :: char and rest :: string
  assume "dropWhile (\<lambda>x. x \<noteq> c) cs = q # rest"
  then have "length (q # rest) \<le> length cs"
    by (metis length_dropWhile_le)
  then show "((d, rest), (d, c # cs)) \<in> measure (\<lambda>(d, s). length s)"
    by simp
qed (auto simp: length_dropWhile_le less_Suc_eq_le)

text \<open>The elements of a list, read after its \<^verbatim>\<open>[\<close> or after a comma.\<close>

fun items :: "dialect \<Rightarrow> token list \<Rightarrow> pyval list option" where
  "items d [ATOM v, RBR] = Some [v]"
| "items d [ATOM v, COMMA, RBR] = (if trailing_comma d then Some [v] else None)"
| "items d (ATOM v # COMMA # rest) = map_option (Cons v) (items d rest)"
| "items d toks = None"

fun parse_value :: "dialect \<Rightarrow> token list \<Rightarrow> pyval option" where
  "parse_value d [ATOM v] = Some v"
| "parse_value d [LBR, RBR] = Some (PyList [])"
| "parse_value d (LBR # rest) = map_option PyList (items d rest)"
| "parse_value d toks = None"

text \<open>
  A name is an expression like any atom, so a text with names has the shape of a value
  exactly when it has it with every name replaced by an atom.
\<close>

fun is_name :: "token \<Rightarrow> bool" where
  "is_name (NAME n) = True"
| "is_name t = False"

fun unname :: "token \<Rightarrow> token" where
  "unname (NAME n) = ATOM PyNone"
| "unname t = t"

text \<open>
  A text that starts with an identifier followed, after blanks and tabs, by a \<^verbatim>\<open>=\<close>
  that is not the start of \<^verbatim>\<open>==\<close>: an assignment or a piece of one, which the parser
  of expressions rejects at this \<^verbatim>\<open>=\<close>.
\<close>

definition is_assignment :: "string \<Rightarrow> bool" where
  "is_assignment s =
     (takeWhile isword s \<noteq> [] \<and> \<not> isdigit (hd s)
      \<and> list_all (\<lambda>c. isplain c \<or> c = backslash \<or> c \<in> set (blanks Python)) s
      \<and> (case dropWhile (\<lambda>c. c = CHR 0x20 \<or> c = CHR 0x09) (dropWhile isword s) of
            [] \<Rightarrow> False
          | [c] \<Rightarrow> c = CHR ''=''
          | c # c' # rest \<Rightarrow> c = CHR ''='' \<and> c' \<noteq> CHR ''=''))"

definition literal_eval_reading :: "string \<Rightarrow> (pyexn + pyval) option" where
  "literal_eval_reading s =
     (if s = [] \<or> is_assignment s then Some (Inl SyntaxError)
      else if hd s \<in> set (blanks Python) \<or> last s \<in> set (blanks Python) then None
      else (case tokens Python s of
              None \<Rightarrow> None
            | Some toks \<Rightarrow>
                (case parse_value Python (map unname toks) of
                   None \<Rightarrow> None
                 | Some v \<Rightarrow> Some (if list_ex is_name toks then Inl ValueError else Inr v))))"

text \<open>
  The characters with which a JSON value can start, as the scanner of \<^verbatim>\<open>json\<close> tests
  them (\<^verbatim>\<open>N\<close> and \<^verbatim>\<open>I\<close> for \<^verbatim>\<open>NaN\<close> and \<^verbatim>\<open>Infinity\<close>), and the texts that open a list
  and go on with none of them.
\<close>

definition json_value_start :: "char \<Rightarrow> bool" where
  "json_value_start c = (c = dquote \<or> c \<in> set ''-0123456789[{tfnNI'')"

definition expecting_value :: "string \<Rightarrow> bool" where
  "expecting_value s =
     (case s of
        [] \<Rightarrow> False
      | c # cs \<Rightarrow>
          c = CHR ''['' \<and>
          (case dropWhile (\<lambda>x. x \<in> set (blanks JSON)) cs of
             [] \<Rightarrow> True
           | x # xs \<Rightarrow> x \<noteq> CHR '']'' \<and> \<not> json_value_start x))"

definition loads_reading :: "string \<Rightarrow> (pyexn + pyval) option" where
  "loads_reading s =
     (if expecting_value s then Some (Inl JSONDecodeError)
      else (case tokens JSON s of
              None \<Rightarrow> None
            | Some toks \<Rightarrow> map_option Inr (parse_value JSON toks)))"


text \<open>
  The two library functions as far as the readings go: they are left unspecified on
  the texts about which the readings say nothing, so that nothing is proved about
  them there.
\<close>

definition library :: "(string \<Rightarrow> 'r option) \<Rightarrow> string \<Rightarrow> 'r" where
  "library reading s = (case reading s of Some r \<Rightarrow> r | None \<Rightarrow> undefined)"

definition ast_literal_eval :: "string \<Rightarrow> pyexn + pyval" where
  "ast_literal_eval = library literal_eval_reading"

definition json_loads :: "string \<Rightarrow> pyexn + pyval" where
  "json_loads = library loads_reading"

section \<open>Exception plumbing\<close>

text \<open>Sequencing of two computations that can raise: the first exception wins.\<close>

definition and_then :: "pyexn + 'x \<Rightarrow> ('x \<Rightarrow> pyexn + 'y) \<Rightarrow> pyexn + 'y" where
  "and_then m k = (case m of Inl e \<Rightarrow> Inl e | Inr x \<Rightarrow> k x)"

section \<open>TickerListParser\<close>

text \<open>
  \<^verbatim>\<open>get_egx_tickers(url)\<close>. The first two arguments are the library functions
  \<^verbatim>\<open>ast.literal_eval\<close> and \<^verbatim>\<open>json.loads\<close>; the third is the outcome of
  \<^verbatim>\<open>requests.get(url, timeout=20).text\<close>: the text of the response, or the exception
  the request raised. The \<^verbatim>\<open>try\<close> block yields the parsed value when it is a list and
  the empty list when it is not; the handler runs when \<^verbatim>\<open>ast.literal_eval\<close> raised, and
  an exception raised inside the handler leaves the function. The set comprehension
  followed by \<^verbatim>\<open>sorted\<close> is duplicate removal followed by sorting.
\<close>

definition get_egx_tickers ::
  "(string \<Rightarrow> pyexn + pyval) \<Rightarrow> (string \<Rightarrow> pyexn + pyval) \<Rightarrow> pyexn + string
     \<Rightarrow> pyexn + string list" where
  "get_egx_tickers literal_eval loads response =
     and_then response (\<lambda>text.
       let txt = strip text in
       and_then
         (case literal_eval txt of
            Inr v \<Rightarrow> Inr (if isinstance_list v then v else PyList [])
          | Inl e \<Rightarrow>
              (case re_search_brackets txt of
                 Some m \<Rightarrow> loads (replace m squote dquote)
               | None \<Rightarrow> Inr (PyList [])))
         (\<lambda>lst.
            if \<not> truthy lst
            then Inl (RuntimeError ''Ticker list parsing failed or returned empty.'')
            else and_then (py_iter lst) (\<lambda>elems.
                   Inr (sort (remdups [strip (upper (py_str t)). t \<leftarrow> elems,
                                        strip (py_str t) \<noteq> []])))))"

section \<open>Sheet names\<close>

text \<open>\<^verbatim>\<open>re.sub(r'[:\\/?*\[\]]', '_', name)[:31]\<close>.\<close>

definition sanitize_sheet_name :: "string \<Rightarrow> string" where
  "sanitize_sheet_name name =
     take 31 (map (\<lambda>c. if c \<in> set '':/?*[]'' \<or> c = backslash then CHR ''_'' else c) name)"

section \<open>BulkSeriesSlicer\<close>

text \<open>
  \<^verbatim>\<open>_slice_ticker_from_download(df, ticker)\<close>. The argument is \<open>None\<close> for Python's
  \<^verbatim>\<open>None\<close>. The inner \<open>case\<close> is the \<^verbatim>\<open>try\<close> block: an exception raised in it is
  swallowed and the function goes on to \<^verbatim>\<open>return None\<close>.
\<close>

definition slice_ticker_from_download ::
  "'a dataframe option \<Rightarrow> string \<Rightarrow> pyexn + 'a series option" where
  "slice_ticker_from_download df ticker =
     (case df of
        None \<Rightarrow> Inr None
      | Some d \<Rightarrow>
          if df_empty d then Inr None
          else (case d of
                  MultiLevel f \<Rightarrow>
                    (case get_level_values (columns f) 0 of
                       Inl e \<Rightarrow> Inl e
                     | Inr lvl0 \<Rightarrow>
                         if ticker \<in> set lvl0 then map_sum id Some (getitem_level0 f ticker)
                         else (case (case get_level_values (columns f) 1 of
                                       Inl e \<Rightarrow> Inl e
                                     | Inr lvl1 \<Rightarrow>
                                         if ticker \<in> set lvl1
                                         then map_sum id Some (xs_level1 f ticker)
                                         else Inr None) of
                                 Inl e \<Rightarrow> Inr None
                               | Inr r \<Rightarrow> Inr r))
                | SingleLevel f \<Rightarrow> Inr (Some f)))"

section \<open>OhlcvNormalizer\<close>

text \<open>
  \<^verbatim>\<open>normalize_ohlcv(df_t)\<close>, statement by statement. \<^verbatim>\<open>df_t.columns[0]\<close> raises
  \<^verbatim>\<open>IndexError\<close> on a frame without columns; the final \<^verbatim>\<open>reset_index(drop=True)\<close>
  follows the sort.
\<close>

definition OHLCV :: "string list" where
  "OHLCV = [''Open'', ''High'', ''Low'', ''Close'', ''Adj Close'', ''Volume'']"

definition fill_missing :: "string \<Rightarrow> 'a table \<Rightarrow> 'a table" where
  "fill_missing col g =
     (if col \<notin> set (columns g) then setitem_new g col (replicate (length (rows g)) None) else g)"

definition normalize_ohlcv :: "('a::linorder) series \<Rightarrow> pyexn + 'a table" where
  "normalize_ohlcv df_t =
     and_then
       (if ''Adj Close'' \<notin> set (columns df_t) \<and> ''Close'' \<in> set (columns df_t)
        then map_sum id (setitem_new df_t ''Adj Close'') (getitem_column df_t ''Close'')
        else Inr df_t)
       (\<lambda>df1.
          let keep = filter (\<lambda>c. c \<in> set (columns df1)) OHLCV in
          and_then (getitem_list df1 keep) (\<lambda>df2.
          and_then (reset_index (dropna df2)) (\<lambda>df3.
            case columns df3 of
              [] \<Rightarrow> Inl IndexError
            | c0 # cs \<Rightarrow>
                let df4 = (if lower c0 \<noteq> ''date'' then rename_columns df3 c0 ''Date'' else df3);
                    df5 = fold fill_missing COLS df4
                in and_then (getitem_list df5 COLS) (\<lambda>df6.
                     if ''Date'' \<in> set (columns df6)
                     then map_sum id reset_index_drop (sort_values df6 ''Date'')
                     else Inr df6))))"

section \<open>PipelineOrchestrator\<close>

text \<open>
  One row of the summary, with the keys of the dictionary the program appends
  (\<^verbatim>\<open>rows\<close> is \<open>n_rows\<close> and \<^verbatim>\<open>note\<close> is \<open>note_text\<close> here), and the three
  accumulators of the loop: the sheets written so far, the summary rows and the skip
  list.
\<close>

record 'a summary_row =
  original_ticker :: string
  yf_symbol :: string
  n_rows :: nat
  first_date :: "'a option"
  last_date :: "'a option"
  note_text :: string

record 'a accumulators =
  sheets :: "(string \<times> 'a table) list"
  summary_rows :: "'a summary_row list"
  skipped :: "string list"

text \<open>
  The body of the \<^verbatim>\<open>for orig, yf_sym in pairs\<close> loop. \<^verbatim>\<open>df_norm["Date"].iloc[0]\<close> and
  \<^verbatim>\<open>.iloc[-1]\<close> raise on a missing column and on an empty one; writing a sheet is the
  serializer's business and does not raise in the model.
\<close>

definition no_data_row :: "string \<Rightarrow> string \<Rightarrow> string \<Rightarrow> 'a summary_row" where
  "no_data_row orig yf_sym msg =
     \<lparr>original_ticker = orig, yf_symbol = yf_sym, n_rows = 0,
      first_date = None, last_date = None, note_text = msg\<rparr>"

definition process_ticker ::
  "('a::linorder) dataframe option \<Rightarrow> 'a accumulators \<Rightarrow> string \<times> string
     \<Rightarrow> pyexn + 'a accumulators" where
  "process_ticker data acc pair =
     (case pair of (orig, yf_sym) \<Rightarrow>
        and_then (slice_ticker_from_download data yf_sym) (\<lambda>df_t.
          if (case df_t of None \<Rightarrow> True | Some f \<Rightarrow> frame_empty f)
          then Inr (acc\<lparr>skipped := skipped acc @ [yf_sym],
                        summary_rows := summary_rows acc @ [no_data_row orig yf_sym ''No data'']\<rparr>)
          else and_then (case df_t of None \<Rightarrow> Inl TypeError | Some f \<Rightarrow> normalize_ohlcv f)
            (\<lambda>df_norm.
               if frame_empty df_norm
               then Inr (acc\<lparr>skipped := skipped acc @ [yf_sym],
                             summary_rows := summary_rows acc
                               @ [no_data_row orig yf_sym ''Empty after normalization'']\<rparr>)
               else and_then (getitem_column df_norm ''Date'') (\<lambda>dates.
                      case dates of
                        [] \<Rightarrow> Inl IndexError
                      | d # ds \<Rightarrow>
                          Inr (acc\<lparr>sheets := sheets acc @ [(sanitize_sheet_name orig, df_norm)],
                                   summary_rows := summary_rows acc
                                     @ [\<lparr>original_ticker = orig, yf_symbol = yf_sym,
                                         n_rows = length (rows df_norm),
                                         first_date = d, last_date = last dates,
                                         note_text = []\<rparr>]\<rparr>)))))"

fun process_pairs ::
  "('a::linorder) dataframe option \<Rightarrow> 'a accumulators \<Rightarrow> (string \<times> string) list
     \<Rightarrow> pyexn + 'a accumulators" where
  "process_pairs data acc [] = Inr acc"
| "process_pairs data acc (pair # pairs) =
     and_then (process_ticker data acc pair) (\<lambda>acc'. process_pairs data acc' pairs)"

text \<open>
  \<^verbatim>\<open>download_and_write_excel(url)\<close>. Its environment is explicit: the two library
  parsers that \<open>get_egx_tickers\<close> calls, the outcome of the HTTP request for the ticker
  list, the bulk download \<^verbatim>\<open>yf.download\<close> as a function of the symbols asked for (it
  may raise, and it may return \<^verbatim>\<open>None\<close>), and the timestamp
  \<^verbatim>\<open>datetime.now().strftime('%Y%m%d_%H%M')\<close>. The workbook is the list of ticker sheets
  followed by the \<^verbatim>\<open>SUMMARY\<close> sheet, which holds the summary rows.
\<close>

record 'a pipeline_result =
  excel_sheets :: "(string \<times> 'a table) list"
  excel_summary :: "'a summary_row list"
  summary_df :: "'a summary_row list"
  skipped_tickers :: "string list"
  output_xlsx :: string

definition download_and_write_excel ::
  "(string \<Rightarrow> pyexn + pyval) \<Rightarrow> (string \<Rightarrow> pyexn + pyval) \<Rightarrow> pyexn + string
     \<Rightarrow> (string list \<Rightarrow> pyexn + ('a::linorder) dataframe option) \<Rightarrow> string
     \<Rightarrow> pyexn + 'a pipeline_result" where
  "download_and_write_excel literal_eval loads response yf_download now =
     and_then (get_egx_tickers literal_eval loads response) (\<lambda>original_tickers.
       let pairs = map (\<lambda>orig. (orig, to_yf_symbol YF_SUFFIX orig)) original_tickers;
           yf_syms = map snd pairs
       in if yf_syms = [] then Inl (RuntimeError ''No tickers to download after mapping.'')
          else and_then (yf_download yf_syms) (\<lambda>data.
                 let name = ''egx_ohlcv_'' @ show_nat LOOKBACK_DAYS @ ''d_'' @ now @ ''.xlsx'' in
                 and_then
                   (process_pairs data \<lparr>sheets = [], summary_rows = [], skipped = []\<rparr> pairs)
                   (\<lambda>acc. Inr \<lparr>excel_sheets = sheets acc,
                                excel_summary = summary_rows acc,
                                summary_df = summary_rows acc,
                                skipped_tickers = skipped acc,
                                output_xlsx = name\<rparr>)))"

section \<open>Vocabulary for the normalizer's result\<close>

text \<open>
  The value a source row carries for a field: its own cell, except that \<^verbatim>\<open>Adj Close\<close>
  reads the \<^verbatim>\<open>Close\<close> cell when the series has no \<^verbatim>\<open>Adj Close\<close> column. A field the series
  lacks altogether reads as null.
\<close>

definition source_field :: "'a series \<Rightarrow> 'a option list \<Rightarrow> string \<Rightarrow> 'a option" where
  "source_field f cells c =
     (if c = ''Adj Close'' \<and> ''Adj Close'' \<notin> set (columns f)
      then cell_at (columns f) cells ''Close''
      else cell_at (columns f) cells c)"

text \<open>The fields of \<open>OHLCV\<close> that the series has, counting a synthesized \<^verbatim>\<open>Adj Close\<close>.\<close>

definition kept_fields :: "'a series \<Rightarrow> string list" where
  "kept_fields f =
     filter (\<lambda>c. c \<in> set (columns f) \<or> (c = ''Adj Close'' \<and> ''Close'' \<in> set (columns f))) OHLCV"

text \<open>A source row is complete when none of its kept fields is null.\<close>

definition complete_row :: "'a series \<Rightarrow> 'a option \<times> 'a option list \<Rightarrow> bool" where
  "complete_row f r = list_all (\<lambda>c. source_field f (snd r) c \<noteq> None) (kept_fields f)"

text \<open>
  The label under which \<^verbatim>\<open>reset_index\<close> files the index ends up as \<^verbatim>\<open>Date\<close> unless it is
  a differently cased spelling of it, which the program leaves alone.
\<close>

definition index_becomes_date :: "'a series \<Rightarrow> bool" where
  "index_becomes_date f =
     (case index_name f of None \<Rightarrow> True | Some n \<Rightarrow> lower n \<noteq> ''date'' \<or> n = ''Date'')"

text \<open>The seven cells, in the order of \<open>COLS\<close>, that a surviving source row turns into.\<close>

definition normalized_row :: "'a series \<Rightarrow> 'a option \<times> 'a option list \<Rightarrow> 'a option list" where
  "normalized_row f r =
     map (\<lambda>c. if c = ''Date'' then (if index_becomes_date f then fst r else None)
              else source_field f (snd r) c) COLS"

section \<open>Vocabulary for the parser's result\<close>



section \<open>Vocabulary for the orchestrator's result\<close>

text \<open>
  The classification of a symbol in the words of the specification: no data when the
  slice is absent or empty, empty after normalization when the slice is not empty
  and its normalization has no row, success otherwise.
\<close>

datatype outcome = Success | NoData | EmptyAfterNormalization

definition symbol_outcome :: "('a::linorder) dataframe option \<Rightarrow> string \<Rightarrow> outcome" where
  "symbol_outcome data symbol =
     (case slice_ticker_from_download data symbol of
        Inr (Some f) \<Rightarrow>
          if frame_empty f then NoData
          else (case normalize_ohlcv f of
                  Inr t \<Rightarrow> if rows t = [] then EmptyAfterNormalization else Success
                | Inl e \<Rightarrow> Success)
      | Inr None \<Rightarrow> NoData
      | Inl e \<Rightarrow> NoData)"

fun outcome_note :: "outcome \<Rightarrow> string" where
  "outcome_note Success = []"
| "outcome_note NoData = ''No data''"
| "outcome_note EmptyAfterNormalization = ''Empty after normalization''"

section \<open>An example run\<close>

text \<open>
  A two-level download with data for \<^verbatim>\<open>AAA\<close>, only null closes for \<^verbatim>\<open>CCC\<close> and nothing
  for any other symbol.
\<close>

definition example_download :: "int dataframe" where
  "example_download = MultiLevel \<lparr>index_name = Some ''Date'',
       columns = [(''AAA'', ''Close''), (''CCC'', ''Close'')],
       rows = [(Some 2, [Some 11, None]), (Some 1, [Some 10, None])]\<rparr>"

section \<open>Properties of SymbolMapper\<close>

lemma endswith_to_yf_symbol: "sfx = [] \<or> endswith (to_yf_symbol sfx t) sfx"
  by (simp add: to_yf_symbol_def endswith_def suffix_def)

text \<open>
  Claim C9. \<open>to_yf_symbol\<close> is a total function without a failure value: it appends the
  suffix exactly when the suffix is non-empty and the ticker does not already end with
  it, returns the ticker unchanged otherwise, and mapping twice is the same as mapping
  once, for every ticker and every suffix.
\<close>

theorem to_yf_symbol_idempotent:
  "to_yf_symbol s (to_yf_symbol s t) = to_yf_symbol s t
   \<and> (s \<noteq> [] \<and> \<not> endswith t s \<longrightarrow> to_yf_symbol s t = t @ s)
   \<and> (\<not> (s \<noteq> [] \<and> \<not> endswith t s) \<longrightarrow> to_yf_symbol s t = t)"
  by (simp add: to_yf_symbol_def endswith_def suffix_def)

theorem to_yf_symbol_idempotent_witness:
  "to_yf_symbol ''.CA'' (to_yf_symbol ''.CA'' ''COMI'') = ''COMI.CA''
   \<and> to_yf_symbol ''.CA'' ''COMI.CA'' = ''COMI.CA''
   \<and> to_yf_symbol YF_SUFFIX ''COMI'' = ''COMI''"
  using to_yf_symbol_idempotent [of "''.CA''" "''COMI''"]
    to_yf_symbol_idempotent [of "''.CA''" "''COMI.CA''"]
    to_yf_symbol_idempotent [of "YF_SUFFIX" "''COMI''"]
  by (simp add: endswith_def YF_SUFFIX_def suffix_def)

section \<open>Properties of BulkSeriesSlicer\<close>

text \<open>
  Claim C6, as the code has it. For every bulk response and every symbol the slicer
  returns without raising, and what it returns follows the policy in order: nothing
  for an absent response and for an empty one (no row, or no column); the whole table
  for single-level columns; for two-level columns the group under the symbol at
  level 0 when there is one, else the cross-section for the symbol at level 1 when
  there is one, else nothing.
\<close>

theorem slice_ticker_from_download_policy:
  "slice_ticker_from_download df t =
     Inr (case df of
            None \<Rightarrow> None
          | Some d \<Rightarrow>
              if df_empty d then None
              else (case d of
                      SingleLevel f \<Rightarrow> Some f
                    | MultiLevel f \<Rightarrow>
                        if t \<in> fst ` set (columns f)
                        then Some (project_columns (\<lambda>l. fst l = t) snd f)
                        else if t \<in> snd ` set (columns f)
                        then Some (project_columns (\<lambda>l. snd l = t) fst f)
                        else None))"
  by (simp add: slice_ticker_from_download_def get_level_values_def getitem_level0_def
      xs_level1_def split: option.splits dataframe.splits)

theorem slice_ticker_from_download_policy_witness:
  "slice_ticker_from_download
     (Some (MultiLevel \<lparr>index_name = Some ''Date'',
        columns = [(''AAA'', ''Close''), (''BBB'', ''Close''), (''AAA'', ''Open'')],
        rows = [(Some (1::int), [Some 10, None, Some 9])]\<rparr>)) ''AAA''
   = Inr (Some \<lparr>index_name = Some ''Date'', columns = [''Close'', ''Open''],
                 rows = [(Some 1, [Some 10, Some 9])]\<rparr>)
   \<and> slice_ticker_from_download
     (Some (MultiLevel \<lparr>index_name = Some ''Date'',
        columns = [(''Close'', ''AAA''), (''Close'', ''BBB''), (''Open'', ''AAA'')],
        rows = [(Some (1::int), [Some 10, None, Some 9])]\<rparr>)) ''AAA''
   = Inr (Some \<lparr>index_name = Some ''Date'', columns = [''Close'', ''Open''],
                 rows = [(Some 1, [Some 10, Some 9])]\<rparr>)
   \<and> slice_ticker_from_download
     (Some (MultiLevel \<lparr>index_name = Some ''Date'',
        columns = [(''Close'', ''AAA''), (''Close'', ''BBB''), (''Open'', ''AAA'')],
        rows = [(Some (1::int), [Some 10, None, Some 9])]\<rparr>)) ''CCC''
   = Inr None"
  using
    slice_ticker_from_download_policy [of "Some (MultiLevel \<lparr>index_name = Some ''Date'',
        columns = [(''AAA'', ''Close''), (''BBB'', ''Close''), (''AAA'', ''Open'')],
        rows = [(Some (1::int), [Some 10, None, Some 9])]\<rparr>)" "''AAA''"]
    slice_ticker_from_download_policy [of "Some (MultiLevel \<lparr>index_name = Some ''Date'',
        columns = [(''Close'', ''AAA''), (''Close'', ''BBB''), (''Open'', ''AAA'')],
        rows = [(Some (1::int), [Some 10, None, Some 9])]\<rparr>)" "''AAA''"]
    slice_ticker_from_download_policy [of "Some (MultiLevel \<lparr>index_name = Some ''Date'',
        columns = [(''Close'', ''AAA''), (''Close'', ''BBB''), (''Open'', ''AAA'')],
        rows = [(Some (1::int), [Some 10, None, Some 9])]\<rparr>)" "''CCC''"]
  by (simp add: project_columns_def frame_empty_def)

text \<open>
  Claim C6 as stated fails: a single-level response with a row and no column has
  rows, yet the slicer returns nothing for it instead of the whole table, because
  \<^verbatim>\<open>df.empty\<close> also holds for a frame without columns.
\<close>

theorem slice_ticker_from_download_zero_columns:
  "rows \<lparr>index_name = Some ''Date'', columns = ([] :: string list),
         rows = [(Some (1::int), [])]\<rparr> \<noteq> []
   \<and> slice_ticker_from_download
       (Some (SingleLevel \<lparr>index_name = Some ''Date'', columns = [],
                            rows = [(Some (1::int), [])]\<rparr>)) ''AAA''
     = Inr None"
  by (simp add: slice_ticker_from_download_def frame_empty_def)

text \<open>
  Claim C10. On a non-empty response with single-level columns the slicer returns the
  entire table whatever symbol is asked for, also one that occurs nowhere in the
  response: the result does not depend on the symbol and is never \<open>None\<close>.
\<close>

theorem slice_flat_ignores_symbol:
  assumes "\<not> df_empty (SingleLevel f)"
  shows "slice_ticker_from_download (Some (SingleLevel f)) t = Inr (Some f)
     \<and> slice_ticker_from_download (Some (SingleLevel f)) t
         = slice_ticker_from_download (Some (SingleLevel f)) t'"
  using assms by (simp add: slice_ticker_from_download_def)

theorem slice_flat_ignores_symbol_witness:
  "\<not> df_empty (SingleLevel \<lparr>index_name = Some ''Date'', columns = [''Open'', ''Close''],
                              rows = [(Some (1::int), [Some 9, Some 10])]\<rparr>)
   \<and> slice_ticker_from_download
       (Some (SingleLevel \<lparr>index_name = Some ''Date'', columns = [''Open'', ''Close''],
                            rows = [(Some (1::int), [Some 9, Some 10])]\<rparr>)) ''ZZZ''
     = Inr (Some \<lparr>index_name = Some ''Date'', columns = [''Open'', ''Close''],
                   rows = [(Some 1, [Some 9, Some 10])]\<rparr>)"
proof -
  have h: "\<not> df_empty (SingleLevel \<lparr>index_name = Some ''Date'', columns = [''Open'', ''Close''],
                              rows = [(Some (1::int), [Some 9, Some 10])]\<rparr>)"
    by (simp add: frame_empty_def)
  show ?thesis
    using h slice_flat_ignores_symbol [OF h, of "''ZZZ''" "''AAA''"] by simp
qed

section \<open>Properties of OhlcvNormalizer\<close>

subsection \<open>Cells, exceptions and sorting\<close>

lemma cell_at_Nil [simp]: "cell_at [] cells c = None"
  by (simp add: cell_at_def)

lemma cell_at_Cons [simp]:
  "cell_at (a # cols) (v # cells) c = (if c = a then v else cell_at cols cells c)"
  by (simp add: cell_at_def)

lemma cell_at_absent: "c \<notin> set cols \<Longrightarrow> cell_at cols cells c = None"
proof -
  assume "c \<notin> set cols"
  then have "c \<notin> fst ` set (zip cols cells)" by (auto dest: set_zip_leftD)
  then have "map_of (zip cols cells) c = None" by (simp add: map_of_eq_None_iff)
  then show ?thesis by (simp add: cell_at_def)
qed

lemma cell_at_append:
  "length cells = length cols \<Longrightarrow>
   cell_at (cols @ cols') (cells @ cells') c =
     (if c \<in> set cols then cell_at cols cells c else cell_at cols' cells' c)"
proof (induction cols arbitrary: cells)
  case Nil then show ?case by simp
next
  case (Cons a cols)
  then obtain v vs where "cells = v # vs" by (cases cells) auto
  with Cons show ?case by simp
qed

lemma cell_at_map:
  "cell_at names (map g names) c = (if c \<in> set names then g c else None)"
  by (simp add: cell_at_def map_of_zip_map)

lemma cell_at_replicate [simp]: "cell_at cols (replicate k None) c = None"
  by (auto simp: cell_at_def split: option.splits dest!: map_of_SomeD set_zip_rightD)

lemma and_then_Inr [simp]: "and_then (Inr x) k = k x"
  by (simp add: and_then_def)

lemma and_then_Inl [simp]: "and_then (Inl e) k = Inl e"
  by (simp add: and_then_def)

lemma and_then_eq_Inr:
  "and_then m k = Inr y \<longleftrightarrow> (\<exists>x. m = Inr x \<and> k x = Inr y)"
  by (cases m) simp_all

lemma zip_replicate_right: "zip xs (replicate (length xs) v) = map (\<lambda>x. (x, v)) xs"
  by (induction xs) auto

lemma enumerate_map_snd:
  "map (\<lambda>(k, x). (k, g x)) (enumerate n xs) = enumerate n (map g xs)"
  by (induction xs arbitrary: n) auto

lemma map_sort_key_comp: "map g (sort_key (\<lambda>x. h (g x)) xs) = sort_key h (map g xs)"
proof (induction xs)
  case Nil then show ?case by simp
next
  case (Cons x xs)
  have ins: "map g (insort_key (\<lambda>x. h (g x)) x ys) = insort_key h (g x) (map g ys)" for ys
    by (induction ys) auto
  from Cons show ?case by (simp add: ins)
qed

subsection \<open>Filling the missing columns\<close>

lemma fill_missing_columns:
  "columns (fill_missing c g) = columns g @ (if c \<in> set (columns g) then [] else [c])"
  by (simp add: fill_missing_def setitem_new_def)

lemma fill_missing_rows:
  "rows (fill_missing c g) =
     map (\<lambda>(i, cells). (i, cells @ (if c \<in> set (columns g) then [] else [None]))) (rows g)"
  by (auto simp: fill_missing_def setitem_new_def zip_replicate_right)

lemma fill_missing_index_name: "index_name (fill_missing c g) = index_name g"
  by (simp add: fill_missing_def setitem_new_def)

lemma fold_fill_missing:
  "distinct cs \<Longrightarrow>
   columns (fold fill_missing cs g) = columns g @ filter (\<lambda>c. c \<notin> set (columns g)) cs
   \<and> rows (fold fill_missing cs g) =
       map (\<lambda>(i, cells). (i, cells @ replicate (length (filter (\<lambda>c. c \<notin> set (columns g)) cs)) None))
         (rows g)
   \<and> index_name (fold fill_missing cs g) = index_name g"
proof (induction cs arbitrary: g)
  case Nil
  then show ?case by simp
next
  case (Cons c cs)
  have flt: "filter (\<lambda>x. x \<notin> set (columns g) \<and> x \<noteq> c) cs = filter (\<lambda>x. x \<notin> set (columns g)) cs"
    using Cons.prems by (intro filter_cong) auto
  from Cons show ?case
    by (auto simp: fill_missing_columns fill_missing_rows fill_missing_index_name flt
        replicate_append_same)
qed

subsection \<open>What the normalizer returns\<close>

lemma lower_date_not_OHLCV: "lower n = ''date'' \<Longrightarrow> n \<notin> set OHLCV"
  by (auto simp: OHLCV_def lower_def lower_char_def)

text \<open>
  On a well-formed series whose index is not named like one of the fields it keeps,
  the normalizer returns the normalized forms of the complete rows, sorted by date.
\<close>

lemma normalize_ohlcv_eq:
  fixes f :: "('a::linorder) series"
  assumes wf: "wf_frame f" and nm: "index_name f \<notin> Some ` set (kept_fields f)"
  shows "normalize_ohlcv f =
     Inr \<lparr>index_name = None, columns = COLS,
          rows = enumerate 0
            (sort_key (\<lambda>cells. na_last (cell_at COLS cells ''Date''))
               (map (normalized_row f) (filter (complete_row f) (rows f))))\<rparr>"
proof -
  let ?cols = "columns f"
  let ?K = "kept_fields f"
  have len: "length cells = length ?cols" if "(i, cells) \<in> set (rows f)" for i cells
    using wf that by (auto simp: wf_frame_def list_all_iff)
  have K_sub: "set ?K \<subseteq> set OHLCV" by (auto simp: kept_fields_def)
  \<comment> \<open>the synthesized column and the selection of the kept fields\<close>
  define step1 where "step1 =
     (if ''Adj Close'' \<notin> set ?cols \<and> ''Close'' \<in> set ?cols
      then map_sum id (setitem_new f ''Adj Close'') (getitem_column f ''Close'')
      else Inr f)"
  obtain df1 where df1: "step1 = Inr df1"
    and keep1: "filter (\<lambda>c. c \<in> set (columns df1)) OHLCV = ?K"
    and nm1: "index_name df1 = index_name f"
    and rows1: "map (\<lambda>(i, cells). (i, map (cell_at (columns df1) cells) ?K)) (rows df1)
                = map (\<lambda>(i, cells). (i, map (source_field f cells) ?K)) (rows f)"
  proof (cases "''Adj Close'' \<notin> set ?cols \<and> ''Close'' \<in> set ?cols")
    case True
    let ?d = "setitem_new f ''Adj Close'' (map (\<lambda>(i, cells). cell_at ?cols cells ''Close'') (rows f))"
    have a: "step1 = Inr ?d" using True by (simp add: step1_def getitem_column_def)
    have b: "filter (\<lambda>c. c \<in> set (columns ?d)) OHLCV = ?K"
      using True by (auto simp: setitem_new_def kept_fields_def intro!: filter_cong)
    have c: "rows ?d = map (\<lambda>(i, cells). (i, cells @ [cell_at ?cols cells ''Close''])) (rows f)"
      by (auto simp: setitem_new_def zip_map2 zip_same_conv_map)
    have d: "cell_at (columns ?d) (cells @ [cell_at ?cols cells ''Close'']) c = source_field f cells c"
      if "(i, cells) \<in> set (rows f)" for i cells c
      using True len[OF that]
      by (auto simp: setitem_new_def cell_at_append source_field_def cell_at_absent)
    have e: "map (\<lambda>(i, cells). (i, map (cell_at (columns ?d) cells) ?K)) (rows ?d)
                = map (\<lambda>(i, cells). (i, map (source_field f cells) ?K)) (rows f)"
      unfolding c using d by (auto simp: comp_def)
    show ?thesis using that[OF a b _ e] by (simp add: setitem_new_def)
  next
    case False
    have a: "step1 = Inr f" using False by (auto simp: step1_def)
    have b: "filter (\<lambda>c. c \<in> set ?cols) OHLCV = ?K"
      using False by (auto simp: kept_fields_def intro!: filter_cong)
    have d: "cell_at ?cols cells = source_field f cells" for cells
      using False by (auto simp: source_field_def cell_at_absent intro!: ext)
    show ?thesis using that[OF a b] by (simp add: d)
  qed
  define df2 :: "'a series" where "df2 =
     \<lparr>index_name = index_name f, columns = ?K,
      rows = map (\<lambda>(i, cells). (i, map (source_field f cells) ?K)) (rows f)\<rparr>"
  have sel: "getitem_list df1 ?K = Inr df2"
  proof -
    have "set (filter (\<lambda>c. c \<in> set (columns df1)) OHLCV) \<subseteq> set (columns df1)" by auto
    then have "set ?K \<subseteq> set (columns df1)" by (simp only: keep1)
    then show ?thesis using rows1 nm1 by (simp add: getitem_list_def df2_def)
  qed
  \<comment> \<open>incomplete rows go, the index becomes the first column\<close>
  define name where "name = (case index_name f of Some n \<Rightarrow> n | None \<Rightarrow> ''index'')"
  have idx_K: "''index'' \<notin> set ?K" using K_sub by (auto simp: OHLCV_def)
  have name_K: "name \<notin> set ?K"
    using nm idx_K by (auto simp: name_def split: option.splits)
  define R3 where "R3 = map (\<lambda>(i, cells). i # map (source_field f cells) ?K)
                          (filter (complete_row f) (rows f))"
  define df3 :: "'a table" where
    "df3 = \<lparr>index_name = None, columns = name # ?K, rows = enumerate 0 R3\<rparr>"
  have cr: "complete_row f = (\<lambda>r. None \<notin> source_field f (snd r) ` set ?K)"
    unfolding complete_row_def list_all_iff
    by (intro ext) (simp del: not_None_eq add: image_iff, metis)
  have flt: "filter (\<lambda>(i, cells). None \<notin> set cells) (rows df2)
      = map (\<lambda>(i, cells). (i, map (source_field f cells) ?K)) (filter (complete_row f) (rows f))"
    by (simp add: df2_def filter_map comp_def cr case_prod_unfold)
  have rst: "reset_index (dropna df2) = Inr df3"
  proof -
    have "rows (dropna df2) = filter (\<lambda>(i, cells). None \<notin> set cells) (rows df2)"
      by (simp add: dropna_def)
    then have "rows (dropna df2) =
        map (\<lambda>(i, cells). (i, map (source_field f cells) ?K)) (filter (complete_row f) (rows f))"
      by (simp only: flt)
    then have r: "map (\<lambda>(i, cells). i # cells) (rows (dropna df2)) = R3"
      by (simp add: R3_def comp_def case_prod_unfold)
    have c: "columns (dropna df2) = ?K" "index_name (dropna df2) = index_name f"
      by (simp_all add: dropna_def df2_def)
    show ?thesis using name_K idx_K
      by (auto simp: reset_index_def c r df3_def name_def Let_def split: option.splits)
  qed
  \<comment> \<open>the first column is renamed, the missing ones are filled with nulls\<close>
  define d0 where "d0 = (if lower name \<noteq> ''date'' then ''Date'' else name)"
  define df4 where "df4 = (if lower name \<noteq> ''date'' then rename_columns df3 name ''Date'' else df3)"
  have cols4: "columns df4 = d0 # ?K"
  proof -
    have "map (\<lambda>c. if c = name then ''Date'' else c) ?K = ?K"
      using name_K by (intro map_idI) auto
    then show ?thesis by (simp add: df4_def d0_def rename_columns_def df3_def)
  qed
  have rows4: "rows df4 = enumerate 0 R3"
    by (simp add: df4_def rename_columns_def df3_def)
  have d0_notin: "d0 \<notin> set OHLCV"
    using lower_date_not_OHLCV[of name] by (auto simp: d0_def OHLCV_def)
  have d0_date: "d0 = ''Date'' \<longleftrightarrow> index_becomes_date f"
    by (auto simp: d0_def index_becomes_date_def name_def lower_def lower_char_def
        split: option.splits)
  define added where "added = filter (\<lambda>c. c \<notin> set (d0 # ?K)) COLS"
  define df5 where "df5 = fold fill_missing COLS df4"
  have cols5: "columns df5 = (d0 # ?K) @ added"
    and rows5: "rows df5 = map (\<lambda>(i, cells). (i, cells @ replicate (length added) None)) (rows df4)"
    using fold_fill_missing[of COLS df4] by (simp_all add: df5_def cols4 added_def COLS_def)
  have sub5: "set COLS \<subseteq> set (columns df5)"
    by (auto simp: cols5 added_def)
  \<comment> \<open>the canonical columns are selected; each surviving row is now its normalized row\<close>
  define R6 where "R6 = map (normalized_row f) (filter (complete_row f) (rows f))"
  define df6 :: "'a table" where
    "df6 = \<lparr>index_name = None, columns = COLS, rows = enumerate 0 R6\<rparr>"
  have cell: "cell_at (d0 # ?K @ added) (i # map (source_field f cells) ?K @ replicate m None) c
      = (if c = ''Date'' then (if index_becomes_date f then i else None) else source_field f cells c)"
    if "c \<in> set COLS" for i cells m c
  proof (cases "c = ''Date''")
    case True
    have "''Date'' \<notin> set ?K" using K_sub by (auto simp: OHLCV_def)
    then show ?thesis using True d0_date
      by (auto simp: cell_at_append cell_at_map)
  next
    case False
    then have cO: "c \<in> set OHLCV" using that by (simp add: COLS_def OHLCV_def)
    then have ne: "c \<noteq> d0" using d0_notin by auto
    have "source_field f cells c = None" if "c \<notin> set ?K"
      using that cO by (auto simp: kept_fields_def source_field_def cell_at_absent)
    then show ?thesis using False ne
      by (auto simp: cell_at_append cell_at_map)
  qed
  have get6: "getitem_list df5 COLS = Inr df6"
  proof -
    define G :: "'a option list \<Rightarrow> 'a option list" where "G = (\<lambda>cells.
       map (cell_at (columns df5) (cells @ replicate (length added) None)) COLS)"
    have "G (i # map (source_field f cells) ?K) = normalized_row f (i, cells)" for i cells
      unfolding G_def cols5 normalized_row_def
      by (rule map_cong) (simp_all del: cell_at_Cons add: cell)
    then have "map G R3 = R6"
      by (simp add: R3_def R6_def comp_def case_prod_unfold)
    moreover have "map (\<lambda>(k, cells). (k, map (cell_at (columns df5) cells) COLS)) (rows df5)
        = map (\<lambda>(k, cells). (k, G cells)) (enumerate 0 R3)"
      by (simp add: rows5 rows4 G_def comp_def case_prod_unfold)
    ultimately have "map (\<lambda>(k, cells). (k, map (cell_at (columns df5) cells) COLS)) (rows df5)
        = enumerate 0 R6"
      by (simp only: enumerate_map_snd)
    moreover have "index_name df5 = None"
      using fold_fill_missing[of COLS df4]
      by (simp add: df5_def COLS_def df4_def rename_columns_def df3_def)
    ultimately show ?thesis using sub5 by (simp add: getitem_list_def df6_def)
  qed
  have srt: "map_sum id reset_index_drop (sort_values df6 ''Date'')
      = Inr \<lparr>index_name = None, columns = COLS,
              rows = enumerate 0 (sort_key (\<lambda>cells. na_last (cell_at COLS cells ''Date'')) R6)\<rparr>"
    using map_sort_key_comp[of snd "\<lambda>cells. na_last (cell_at COLS cells ''Date'')" "enumerate 0 R6"]
    by (simp add: sort_values_def df6_def reset_index_drop_def COLS_def case_prod_unfold)
  have "normalize_ohlcv f = map_sum id reset_index_drop (sort_values df6 ''Date'')"
  proof -
    have cols3: "columns df3 = name # ?K" by (simp add: df3_def)
    have cols6: "''Date'' \<in> set (columns df6)" by (simp add: df6_def COLS_def)
    show ?thesis
      unfolding normalize_ohlcv_def step1_def[symmetric] df1
      by (simp add: keep1 sel rst cols3 Let_def df4_def[symmetric] df5_def[symmetric] get6 cols6)
  qed
  then show ?thesis by (simp only: srt R6_def)
qed

text \<open>Whenever the normalizer returns, its table has the seven canonical columns.\<close>

lemma and_thenE:
  assumes "and_then m k = Inr y"
  obtains x where "m = Inr x" and "k x = Inr y"
  using assms by (auto simp: and_then_eq_Inr)

lemma normalize_ohlcv_columns:
  assumes "normalize_ohlcv f = Inr t"
  shows "columns t = COLS"
proof -
  have tail: "columns t = COLS"
    if "and_then (getitem_list g COLS)
          (\<lambda>df6. if ''Date'' \<in> set (columns df6)
                 then map_sum id reset_index_drop (sort_values df6 ''Date'')
                 else Inr df6) = Inr t" for g :: "'a table"
  proof -
    from that obtain df6 where a: "getitem_list g COLS = Inr df6"
      and b: "(if ''Date'' \<in> set (columns df6)
               then map_sum id reset_index_drop (sort_values df6 ''Date'')
               else Inr df6) = Inr t"
      by (rule and_thenE)
    from a have "columns df6 = COLS"
      by (auto simp: getitem_list_def split: if_splits)
    with b show ?thesis
      by (auto simp: COLS_def sort_values_def reset_index_drop_def)
  qed
  from assms obtain df3 :: "'a table" where
    "(case columns df3 of
        [] \<Rightarrow> Inl IndexError
      | c0 # cs \<Rightarrow>
          and_then
            (getitem_list
               (fold fill_missing COLS
                  (if lower c0 \<noteq> ''date'' then rename_columns df3 c0 ''Date'' else df3)) COLS)
            (\<lambda>df6. if ''Date'' \<in> set (columns df6)
                   then map_sum id reset_index_drop (sort_values df6 ''Date'')
                   else Inr df6)) = Inr t"
    unfolding normalize_ohlcv_def Let_def by (elim and_thenE) blast
  then show ?thesis
    by (cases "columns df3") (auto intro: tail)
qed

subsection \<open>Completeness of the emitted rows\<close>

lemma COLS_split: "COLS = ''Date'' # OHLCV"
  by (simp add: COLS_def OHLCV_def)

lemmas normalize_ohlcv_eval =
  normalize_ohlcv_def getitem_column_def setitem_new_def OHLCV_def COLS_def getitem_list_def
  cell_at_def dropna_def reset_index_def lower_def lower_char_def rename_columns_def
  fill_missing_def sort_values_def reset_index_drop_def na_last_def

text \<open>
  Claim C1 as stated fails. A series that has no \<^verbatim>\<open>Volume\<close> column at all keeps its
  rows, and every emitted row carries a null \<^verbatim>\<open>Volume\<close>: the program inserts the
  placeholder \<^verbatim>\<open>pd.NA\<close> for a canonical column that is still missing.
\<close>

theorem normalize_ohlcv_missing_volume:
  "normalize_ohlcv
     \<lparr>index_name = Some ''Date'',
      columns = [''Open'', ''High'', ''Low'', ''Close'', ''Adj Close''],
      rows = [(Some (20240102::int), [Some 10, Some 11, Some 9, Some 10, Some 10])]\<rparr>
   = Inr \<lparr>index_name = None, columns = COLS,
          rows = [(0, [Some 20240102, Some 10, Some 11, Some 9, Some 10, Some 10, None])]\<rparr>"
  by (simp add: normalize_ohlcv_eval)

text \<open>
  Claim C1, amended. For every well-formed series that has the columns \<^verbatim>\<open>Open\<close>,
  \<^verbatim>\<open>High\<close>, \<^verbatim>\<open>Low\<close>, \<^verbatim>\<open>Close\<close> and \<^verbatim>\<open>Volume\<close>, whose index holds no null date and
  has a name that is none of the field names and ends up as \<^verbatim>\<open>Date\<close>, the normalizer
  returns, and the rows it emits are exactly the normalized forms of the source rows
  without a null in a kept field (\<^verbatim>\<open>Adj Close\<close> read from \<^verbatim>\<open>Close\<close> when the series
  has no such column); every emitted row has all seven fields, none of them null.
\<close>

theorem normalize_ohlcv_no_null_field:
  fixes f :: "('a::linorder) series"
  assumes wf: "wf_frame f"
    and fields: "set [''Open'', ''High'', ''Low'', ''Close'', ''Volume''] \<subseteq> set (columns f)"
    and name: "index_name f \<notin> Some ` set OHLCV" "index_becomes_date f"
    and dates: "list_all (\<lambda>r. fst r \<noteq> None) (rows f)"
  shows "\<exists>t. normalize_ohlcv f = Inr t
     \<and> columns t = COLS
     \<and> mset (map snd (rows t)) = mset (map (normalized_row f) (filter (complete_row f) (rows f)))
     \<and> list_all (\<lambda>r. length (snd r) = length COLS \<and> None \<notin> set (snd r)) (rows t)"
proof -
  let ?out = "sort_key (\<lambda>cells. na_last (cell_at COLS cells ''Date''))
                (map (normalized_row f) (filter (complete_row f) (rows f)))"
  let ?t = "\<lparr>index_name = None, columns = COLS, rows = enumerate 0 ?out\<rparr> :: 'a table"
  have K: "kept_fields f = OHLCV"
    using fields by (auto simp: kept_fields_def OHLCV_def)
  then have eq: "normalize_ohlcv f = Inr ?t"
    using normalize_ohlcv_eq[OF wf] name(1) by simp
  have full: "length (normalized_row f r) = length COLS \<and> None \<notin> set (normalized_row f r)"
    if r: "r \<in> set (rows f)" and c: "complete_row f r" for r
  proof -
    have "fst r \<noteq> None" using dates r by (auto simp: list_all_iff)
    moreover have "source_field f (snd r) c \<noteq> None" if "c \<in> set OHLCV" for c
      using c that by (simp add: complete_row_def K list_all_iff)
    ultimately have ne: "(if c = ''Date'' then fst r else source_field f (snd r) c) \<noteq> None"
      if "c \<in> set COLS" for c
      using that unfolding COLS_split by (cases "c = ''Date''") (simp_all del: not_None_eq)
    have nn: "None \<notin> (\<lambda>c. if c = ''Date'' then fst r else source_field f (snd r) c) ` set COLS"
    proof
      assume "None \<in> (\<lambda>c. if c = ''Date'' then fst r else source_field f (snd r) c) ` set COLS"
      then obtain c where "c \<in> set COLS"
        and "None = (if c = ''Date'' then fst r else source_field f (snd r) c)"
        by (rule imageE)
      with ne[of c] show False by (simp del: not_None_eq)
    qed
    have "normalized_row f r
        = map (\<lambda>c. if c = ''Date'' then fst r else source_field f (snd r) c) COLS"
      using name(2) by (simp add: normalized_row_def)
    then have "set (normalized_row f r)
        = (\<lambda>c. if c = ''Date'' then fst r else source_field f (snd r) c) ` set COLS"
      and "length (normalized_row f r) = length COLS"
      by (simp_all only: set_map length_map)
    with nn show ?thesis by (simp only: not_False_eq_True simp_thms)
  qed
  have out: "snd ` set (enumerate 0 ?out) = set ?out"
    by (simp only: set_map[symmetric] map_snd_enumerate)
  have "list_all (\<lambda>r. length (snd r) = length COLS \<and> None \<notin> set (snd r)) (rows ?t)"
    unfolding list_all_iff
  proof
    fix r assume "r \<in> set (rows ?t)"
    then have "snd r \<in> snd ` set (enumerate 0 ?out)" by simp
    then have "snd r \<in> set ?out" by (simp only: out)
    then obtain r0 where "r0 \<in> set (rows f)" "complete_row f r0" "snd r = normalized_row f r0"
      by auto
    then show "length (snd r) = length COLS \<and> None \<notin> set (snd r)"
      using full[of r0] by simp
  qed
  moreover have "mset (map snd (rows ?t))
      = mset (map (normalized_row f) (filter (complete_row f) (rows f)))"
    by simp
  ultimately show ?thesis using eq by (intro exI[of _ ?t]) simp
qed

theorem normalize_ohlcv_no_null_field_witness:
  "normalize_ohlcv
     \<lparr>index_name = Some ''Date'',
      columns = [''Open'', ''High'', ''Low'', ''Close'', ''Adj Close'', ''Volume''],
      rows = [(Some (20240103::int), [Some 12, Some 13, None, Some 12, Some 12, Some 500]),
              (Some 20240102, [Some 10, Some 11, Some 9, Some 10, Some 10, Some 1000])]\<rparr>
   = Inr \<lparr>index_name = None, columns = COLS,
          rows = [(0, [Some 20240102, Some 10, Some 11, Some 9, Some 10, Some 10, Some 1000])]\<rparr>
   \<and> list_all (\<lambda>r. length (snd r) = length COLS \<and> None \<notin> set (snd r))
        [(0::nat, [Some (20240102::int), Some 10, Some 11, Some 9, Some 10, Some 10, Some 1000])]"
proof -
  let ?f = "\<lparr>index_name = Some ''Date'',
      columns = [''Open'', ''High'', ''Low'', ''Close'', ''Adj Close'', ''Volume''],
      rows = [(Some (20240103::int), [Some 12, Some 13, None, Some 12, Some 12, Some 500]),
              (Some 20240102, [Some 10, Some 11, Some 9, Some 10, Some 10, Some 1000])]\<rparr>
      :: int series"
  have run: "normalize_ohlcv ?f
      = Inr \<lparr>index_name = None, columns = COLS,
          rows = [(0, [Some 20240102, Some 10, Some 11, Some 9, Some 10, Some 10, Some 1000])]\<rparr>"
    by (simp add: normalize_ohlcv_eval)
  have h1: "wf_frame ?f" by (simp add: wf_frame_def)
  have h2: "set [''Open'', ''High'', ''Low'', ''Close'', ''Volume''] \<subseteq> set (columns ?f)"
    by simp
  have h3: "index_name ?f \<notin> Some ` set OHLCV" by (simp add: OHLCV_def)
  have h4: "index_becomes_date ?f" by (simp add: index_becomes_date_def)
  have h5: "list_all (\<lambda>r. fst r \<noteq> None) (rows ?f)" by simp
  from normalize_ohlcv_no_null_field [OF h1 h2 h3 h4 h5] run
  show ?thesis by auto
qed

subsection \<open>The synthesized adjusted close\<close>

text \<open>
  Claim C7 as stated fails. A series with a \<^verbatim>\<open>Close\<close> column and no \<^verbatim>\<open>Adj Close\<close>
  column whose index is named \<^verbatim>\<open>Close\<close> makes \<^verbatim>\<open>reset_index\<close> raise: the normalizer
  fails with \<^verbatim>\<open>ValueError\<close> and emits no row, with or without an adjusted close.
\<close>

theorem normalize_ohlcv_index_named_close:
  "''Close'' \<in> set (columns \<lparr>index_name = Some ''Close'',
        columns = [''Open'', ''High'', ''Low'', ''Close'', ''Volume''],
        rows = [(Some (20240102::int), [Some 10, Some 11, Some 9, Some 10, Some 1000])]\<rparr>)
   \<and> ''Adj Close'' \<notin> set (columns \<lparr>index_name = Some ''Close'',
        columns = [''Open'', ''High'', ''Low'', ''Close'', ''Volume''],
        rows = [(Some (20240102::int), [Some 10, Some 11, Some 9, Some 10, Some 1000])]\<rparr>)
   \<and> normalize_ohlcv
       \<lparr>index_name = Some ''Close'',
        columns = [''Open'', ''High'', ''Low'', ''Close'', ''Volume''],
        rows = [(Some (20240102::int), [Some 10, Some 11, Some 9, Some 10, Some 1000])]\<rparr>
     = Inl ValueError"
  by (simp add: normalize_ohlcv_eval)

text \<open>
  Claim C7, amended. For every well-formed series (its column labels are distinct)
  that has a \<^verbatim>\<open>Close\<close> column and no \<^verbatim>\<open>Adj Close\<close> column, and whose index is not named
  like a field it keeps, the normalizer returns, every row it emits is the normalized
  form of a source row, and in it \<^verbatim>\<open>Adj Close\<close> is that row's \<^verbatim>\<open>Close\<close>, which is not
  null; every complete source row is emitted.
\<close>

theorem normalize_ohlcv_adj_close_from_close:
  fixes f :: "('a::linorder) series"
  assumes wf: "wf_frame f"
    and close: "''Close'' \<in> set (columns f)"
    and no_adj: "''Adj Close'' \<notin> set (columns f)"
    and name: "index_name f \<notin> Some ` set (kept_fields f)"
  shows "\<exists>t. normalize_ohlcv f = Inr t
     \<and> columns t = COLS
     \<and> snd ` set (rows t) = normalized_row f ` {r \<in> set (rows f). complete_row f r}
     \<and> list_all (\<lambda>r. cell_at COLS (snd r) ''Adj Close'' = cell_at COLS (snd r) ''Close''
                     \<and> cell_at COLS (snd r) ''Close'' \<noteq> None) (rows t)
     \<and> list_all (\<lambda>r. cell_at COLS (normalized_row f r) ''Adj Close''
                       = cell_at (columns f) (snd r) ''Close'') (rows f)"
proof -
  let ?out = "sort_key (\<lambda>cells. na_last (cell_at COLS cells ''Date''))
                (map (normalized_row f) (filter (complete_row f) (rows f)))"
  let ?t = "\<lparr>index_name = None, columns = COLS, rows = enumerate 0 ?out\<rparr> :: 'a table"
  have eq: "normalize_ohlcv f = Inr ?t"
    by (rule normalize_ohlcv_eq[OF wf name])
  have K: "''Close'' \<in> set (kept_fields f)"
    using close by (simp add: kept_fields_def OHLCV_def)
  have adj: "cell_at COLS (normalized_row f r) ''Adj Close'' = cell_at (columns f) (snd r) ''Close''"
    and cl: "cell_at COLS (normalized_row f r) ''Close'' = cell_at (columns f) (snd r) ''Close''"
    for r
    using no_adj by (simp_all add: normalized_row_def COLS_def source_field_def)
  have nn: "cell_at (columns f) (snd r) ''Close'' \<noteq> None" if "complete_row f r" for r
  proof -
    from that K have "source_field f (snd r) ''Close'' \<noteq> None"
      by (simp add: complete_row_def list_all_iff)
    then show ?thesis by (simp add: source_field_def)
  qed
  have rows_t: "snd ` set (rows ?t) = normalized_row f ` {r \<in> set (rows f). complete_row f r}"
  proof -
    have "snd ` set (enumerate 0 ?out) = set ?out"
      by (simp only: set_map[symmetric] map_snd_enumerate)
    also have "\<dots> = normalized_row f ` {r \<in> set (rows f). complete_row f r}" by auto
    finally show ?thesis by simp
  qed
  have "list_all (\<lambda>r. cell_at COLS (snd r) ''Adj Close'' = cell_at COLS (snd r) ''Close''
            \<and> cell_at COLS (snd r) ''Close'' \<noteq> None) (rows ?t)"
    unfolding list_all_iff
  proof
    fix r assume "r \<in> set (rows ?t)"
    then have "snd r \<in> snd ` set (rows ?t)" by (rule imageI)
    then obtain r0 where "complete_row f r0" "snd r = normalized_row f r0"
      unfolding rows_t by auto
    then show "cell_at COLS (snd r) ''Adj Close'' = cell_at COLS (snd r) ''Close''
       \<and> cell_at COLS (snd r) ''Close'' \<noteq> None"
      by (simp add: adj cl nn)
  qed
  moreover have "list_all (\<lambda>r. cell_at COLS (normalized_row f r) ''Adj Close''
                       = cell_at (columns f) (snd r) ''Close'') (rows f)"
    by (simp add: list_all_iff adj)
  ultimately show ?thesis using eq rows_t by (intro exI[of _ ?t]) simp
qed

theorem normalize_ohlcv_adj_close_from_close_witness:
  "normalize_ohlcv
     \<lparr>index_name = Some ''Date'',
      columns = [''Open'', ''High'', ''Low'', ''Close'', ''Volume''],
      rows = [(Some (20240102::real), [Some 10, Some 11, Some 9, Some 10.5, Some 1000])]\<rparr>
   = Inr \<lparr>index_name = None, columns = COLS,
          rows = [(0, [Some 20240102, Some 10, Some 11, Some 9, Some 10.5, Some 10.5, Some 1000])]\<rparr>
   \<and> cell_at COLS [Some (20240102::real), Some 10, Some 11, Some 9, Some 10.5, Some 10.5, Some 1000]
        ''Adj Close'' = Some 10.5"
proof -
  let ?f = "\<lparr>index_name = Some ''Date'',
      columns = [''Open'', ''High'', ''Low'', ''Close'', ''Volume''],
      rows = [(Some (20240102::real), [Some 10, Some 11, Some 9, Some 10.5, Some 1000])]\<rparr>
      :: real series"
  have run: "normalize_ohlcv ?f
      = Inr \<lparr>index_name = None, columns = COLS,
          rows = [(0, [Some 20240102, Some 10, Some 11, Some 9, Some 10.5, Some 10.5, Some 1000])]\<rparr>"
    by (simp add: normalize_ohlcv_eval)
  have h1: "wf_frame ?f" by (simp add: wf_frame_def)
  have h2: "''Close'' \<in> set (columns ?f)" by simp
  have h3: "''Adj Close'' \<notin> set (columns ?f)" by simp
  have h4: "index_name ?f \<notin> Some ` set (kept_fields ?f)"
    by (simp add: kept_fields_def OHLCV_def)
  from normalize_ohlcv_adj_close_from_close [OF h1 h2 h3 h4] run
  show ?thesis by (auto simp: COLS_def)
qed

section \<open>Properties of TickerListParser\<close>

subsection \<open>The bracketed span and stripping\<close>




subsection \<open>Python reads what JSON reads, the three words apart\<close>













subsection \<open>The strict path\<close>




subsection \<open>The fallback\<close>

text \<open>
  Claim C3, at the input where the code departs from it. On \<^verbatim>\<open>[abc]\<close> the strict parse
  raises (a name is no literal), the bracketed span is the whole text, and
  \<^verbatim>\<open>json.loads\<close> raises inside the handler: the function fails with
  \<^verbatim>\<open>JSONDecodeError\<close>, not with the \<^verbatim>\<open>RuntimeError\<close> that reports a failed parse.
\<close>

theorem get_egx_tickers_json_error_escapes:
  "ast_literal_eval (strip ''[abc]'') = Inl ValueError
   \<and> re_search_brackets (strip ''[abc]'') = Some ''[abc]''
   \<and> json_loads (replace ''[abc]'' squote dquote) = Inl JSONDecodeError
   \<and> get_egx_tickers ast_literal_eval json_loads (Inr ''[abc]'') = Inl JSONDecodeError"
  by code_simp




section \<open>Properties of PipelineOrchestrator\<close>

lemma to_yf_symbol_configured [simp]: "to_yf_symbol YF_SUFFIX t = t"
  by (simp add: to_yf_symbol_def YF_SUFFIX_def)

lemma to_yf_symbol_identity: "to_yf_symbol YF_SUFFIX = (\<lambda>t. t)"
  by (rule ext) simp

lemma normalize_ohlcv_empty:
  assumes "normalize_ohlcv f = Inr t"
  shows "frame_empty t \<longleftrightarrow> rows t = []"
  using normalize_ohlcv_columns[OF assms] by (simp add: frame_empty_def COLS_def)

text \<open>
  One turn of the loop that does not raise appends exactly one summary row, for the
  ticker at hand and with the note of its outcome, and appends the symbol to the skip
  list exactly when the outcome is not a success.
\<close>

lemma process_ticker_step:
  assumes "process_ticker data acc (orig, y) = Inr acc'"
  shows "\<exists>row. summary_rows acc' = summary_rows acc @ [row]
     \<and> original_ticker row = orig
     \<and> yf_symbol row = y
     \<and> note_text row = outcome_note (symbol_outcome data y)
     \<and> skipped acc' = skipped acc @ (if symbol_outcome data y = Success then [] else [y])"
proof -
  from assms obtain df_t where sl: "slice_ticker_from_download data y = Inr df_t"
    and rest: "(if (case df_t of None \<Rightarrow> True | Some f \<Rightarrow> frame_empty f)
          then Inr (acc\<lparr>skipped := skipped acc @ [y],
                        summary_rows := summary_rows acc @ [no_data_row orig y ''No data'']\<rparr>)
          else and_then (case df_t of None \<Rightarrow> Inl TypeError | Some f \<Rightarrow> normalize_ohlcv f)
            (\<lambda>df_norm.
               if frame_empty df_norm
               then Inr (acc\<lparr>skipped := skipped acc @ [y],
                             summary_rows := summary_rows acc
                               @ [no_data_row orig y ''Empty after normalization'']\<rparr>)
               else and_then (getitem_column df_norm ''Date'') (\<lambda>dates.
                      case dates of
                        [] \<Rightarrow> Inl IndexError
                      | d # ds \<Rightarrow>
                          Inr (acc\<lparr>sheets := sheets acc @ [(sanitize_sheet_name orig, df_norm)],
                                   summary_rows := summary_rows acc
                                     @ [\<lparr>original_ticker = orig, yf_symbol = y,
                                         n_rows = length (rows df_norm),
                                         first_date = d, last_date = last dates,
                                         note_text = []\<rparr>]\<rparr>)))) = Inr acc'"
    unfolding process_ticker_def by (auto elim: and_thenE)
  show ?thesis
  proof (cases "case df_t of None \<Rightarrow> True | Some f \<Rightarrow> frame_empty f")
    case True
    then have "symbol_outcome data y = NoData"
      using sl by (auto simp: symbol_outcome_def split: option.splits)
    with rest True show ?thesis by (auto simp: no_data_row_def)
  next
    case False
    then obtain f where f: "df_t = Some f" "\<not> frame_empty f"
      by (auto split: option.splits)
    with rest False obtain t where n: "normalize_ohlcv f = Inr t"
      and rest': "(if frame_empty t
               then Inr (acc\<lparr>skipped := skipped acc @ [y],
                             summary_rows := summary_rows acc
                               @ [no_data_row orig y ''Empty after normalization'']\<rparr>)
               else and_then (getitem_column t ''Date'') (\<lambda>dates.
                      case dates of
                        [] \<Rightarrow> Inl IndexError
                      | d # ds \<Rightarrow>
                          Inr (acc\<lparr>sheets := sheets acc @ [(sanitize_sheet_name orig, t)],
                                   summary_rows := summary_rows acc
                                     @ [\<lparr>original_ticker = orig, yf_symbol = y,
                                         n_rows = length (rows t),
                                         first_date = d, last_date = last dates,
                                         note_text = []\<rparr>]\<rparr>))) = Inr acc'"
      by (auto elim: and_thenE)
    show ?thesis
    proof (cases "frame_empty t")
      case True
      then have "symbol_outcome data y = EmptyAfterNormalization"
        using sl f n normalize_ohlcv_empty[OF n] by (simp add: symbol_outcome_def)
      with rest' True show ?thesis by (auto simp: no_data_row_def)
    next
      case False
      then have o: "symbol_outcome data y = Success"
        using sl f n normalize_ohlcv_empty[OF n] by (simp add: symbol_outcome_def)
      from rest' False obtain dates d ds where "dates = d # ds"
        and "acc' = acc\<lparr>sheets := sheets acc @ [(sanitize_sheet_name orig, t)],
                         summary_rows := summary_rows acc
                           @ [\<lparr>original_ticker = orig, yf_symbol = y,
                               n_rows = length (rows t),
                               first_date = d, last_date = last dates,
                               note_text = []\<rparr>]\<rparr>"
        by (auto elim!: and_thenE split: list.splits)
      with o show ?thesis by simp
    qed
  qed
qed

lemma process_pairs_result:
  assumes "process_pairs data acc pairs = Inr acc'"
  shows "map original_ticker (summary_rows acc')
       = map original_ticker (summary_rows acc) @ map fst pairs
     \<and> map note_text (summary_rows acc')
       = map note_text (summary_rows acc)
           @ map (\<lambda>p. outcome_note (symbol_outcome data (snd p))) pairs
     \<and> skipped acc'
       = skipped acc @ map snd (filter (\<lambda>p. symbol_outcome data (snd p) \<noteq> Success) pairs)"
  using assms
proof (induction pairs arbitrary: acc)
  case Nil
  then show ?case by simp
next
  case (Cons p pairs)
  obtain orig y where p: "p = (orig, y)" by (cases p)
  from Cons.prems obtain acc1 where s1: "process_ticker data acc (orig, y) = Inr acc1"
    and s2: "process_pairs data acc1 pairs = Inr acc'"
    unfolding p by (auto elim: and_thenE)
  from process_ticker_step[OF s1] obtain row where
    "summary_rows acc1 = summary_rows acc @ [row]" "original_ticker row = orig"
    "note_text row = outcome_note (symbol_outcome data y)"
    "skipped acc1 = skipped acc @ (if symbol_outcome data y = Success then [] else [y])"
    by blast
  with Cons.IH[OF s2] show ?case by (simp add: p)
qed

lemma download_and_write_excel_result:
  assumes "download_and_write_excel literal_eval loads response yf_download now = Inr res"
  obtains tickers data acc where
    "get_egx_tickers literal_eval loads response = Inr tickers" "tickers \<noteq> []"
    "yf_download tickers = Inr data"
    "process_pairs data \<lparr>sheets = [], summary_rows = [], skipped = []\<rparr>
        (map (\<lambda>t. (t, t)) tickers) = Inr acc"
    "summary_df res = summary_rows acc" "skipped_tickers res = skipped acc"
proof -
  have pairs: "map (\<lambda>orig. (orig, to_yf_symbol YF_SUFFIX orig)) ts = map (\<lambda>t. (t, t)) ts"
    and syms: "map snd (map (\<lambda>t. (t, t)) ts) = ts" for ts :: "string list"
    by (simp_all add: comp_def)
  from assms obtain tickers where t: "get_egx_tickers literal_eval loads response = Inr tickers"
    and r: "(if tickers = [] then Inl (RuntimeError ''No tickers to download after mapping.'')
          else and_then (yf_download tickers) (\<lambda>data.
                 and_then
                   (process_pairs data \<lparr>sheets = [], summary_rows = [], skipped = []\<rparr>
                      (map (\<lambda>t. (t, t)) tickers))
                   (\<lambda>acc. Inr \<lparr>excel_sheets = sheets acc,
                                excel_summary = summary_rows acc,
                                summary_df = summary_rows acc,
                                skipped_tickers = skipped acc,
                                output_xlsx = ''egx_ohlcv_'' @ show_nat LOOKBACK_DAYS @ ''d_''
                                                @ now @ ''.xlsx''\<rparr>))) = Inr res"
    unfolding download_and_write_excel_def Let_def pairs syms
    by (elim and_thenE) (simp only: list.map_disc_iff)
  then have ne: "tickers \<noteq> []" by (auto split: if_splits)
  with r obtain data acc where "yf_download tickers = Inr data"
    and "process_pairs data \<lparr>sheets = [], summary_rows = [], skipped = []\<rparr>
        (map (\<lambda>t. (t, t)) tickers) = Inr acc"
    and "res = \<lparr>excel_sheets = sheets acc, excel_summary = summary_rows acc,
                summary_df = summary_rows acc, skipped_tickers = skipped acc,
                output_xlsx = ''egx_ohlcv_'' @ show_nat LOOKBACK_DAYS @ ''d_'' @ now @ ''.xlsx''\<rparr>"
    by (auto elim!: and_thenE simp del: show_nat.simps)
  with t ne show ?thesis by (intro that[of tickers data acc]) simp_all
qed

subsection \<open>When the run returns\<close>

lemma slice_ticker_from_download_returns:
  "\<exists>r. slice_ticker_from_download df t = Inr r"
  by (simp add: slice_ticker_from_download_def get_level_values_def getitem_level0_def
      xs_level1_def split: option.splits dataframe.splits)

lemma process_ticker_returns:
  assumes "\<And>f. slice_ticker_from_download data y = Inr (Some f)
             \<Longrightarrow> wf_frame f \<and> index_name f \<notin> Some ` set (kept_fields f)"
  shows "\<exists>acc'. process_ticker data acc (orig, y) = Inr acc'"
proof -
  obtain df_t where sl: "slice_ticker_from_download data y = Inr df_t"
    using slice_ticker_from_download_returns by blast
  show ?thesis
  proof (cases "case df_t of None \<Rightarrow> True | Some f \<Rightarrow> frame_empty f")
    case True
    then show ?thesis using sl by (simp add: process_ticker_def)
  next
    case False
    then obtain f where f: "df_t = Some f" "\<not> frame_empty f"
      by (auto split: option.splits)
    with assms sl obtain t where n: "normalize_ohlcv f = Inr t"
      using normalize_ohlcv_eq by blast
    show ?thesis
    proof (cases "frame_empty t")
      case True
      then show ?thesis using sl f n by (simp add: process_ticker_def)
    next
      case False
      have "''Date'' \<in> set (columns t)"
        using normalize_ohlcv_columns[OF n] by (simp add: COLS_def)
      moreover have "rows t \<noteq> []" using False by (simp add: frame_empty_def)
      ultimately obtain d ds where "getitem_column t ''Date'' = Inr (d # ds)"
        by (cases "rows t") (auto simp: getitem_column_def)
      then show ?thesis using sl f n False by (simp add: process_ticker_def)
    qed
  qed
qed

lemma process_pairs_returns:
  assumes "\<And>y f. y \<in> snd ` set pairs \<Longrightarrow> slice_ticker_from_download data y = Inr (Some f)
             \<Longrightarrow> wf_frame f \<and> index_name f \<notin> Some ` set (kept_fields f)"
  shows "\<exists>acc'. process_pairs data acc pairs = Inr acc'"
  using assms
proof (induction pairs arbitrary: acc)
  case Nil
  then show ?case by simp
next
  case (Cons p pairs)
  obtain orig y where p: "p = (orig, y)" by (cases p)
  have "\<exists>acc1. process_ticker data acc (orig, y) = Inr acc1"
    by (rule process_ticker_returns) (use Cons.prems p in auto)
  then obtain acc1 where s1: "process_ticker data acc (orig, y) = Inr acc1" ..
  have "\<exists>acc'. process_pairs data acc1 pairs = Inr acc'"
    by (rule Cons.IH) (use Cons.prems in auto)
  with s1 show ?case by (simp add: p)
qed

text \<open>
  The run returns whenever the ticker list parses to at least one ticker, the bulk
  download returns, and every slice it hands to the normalizer is a well-formed
  series whose index is not named like one of its kept fields.
\<close>

lemma download_and_write_excel_returns:
  assumes "get_egx_tickers literal_eval loads response = Inr tickers" and "tickers \<noteq> []"
    and "yf_download tickers = Inr data"
    and "\<And>t f. t \<in> set tickers \<Longrightarrow> slice_ticker_from_download data t = Inr (Some f)
             \<Longrightarrow> wf_frame f \<and> index_name f \<notin> Some ` set (kept_fields f)"
  shows "\<exists>res. download_and_write_excel literal_eval loads response yf_download now = Inr res"
proof -
  have pairs: "map (\<lambda>orig. (orig, to_yf_symbol YF_SUFFIX orig)) ts = map (\<lambda>t. (t, t)) ts"
    and syms: "map snd (map (\<lambda>t. (t, t)) ts) = ts" for ts :: "string list"
    by (simp_all add: comp_def)
  have "\<exists>acc. process_pairs data \<lparr>sheets = [], summary_rows = [], skipped = []\<rparr>
                 (map (\<lambda>t. (t, t)) tickers) = Inr acc"
  proof (rule process_pairs_returns)
    fix y f
    assume "y \<in> snd ` set (map (\<lambda>t. (t, t)) tickers)"
      and sl: "slice_ticker_from_download data y = Inr (Some f)"
    then have "y \<in> set tickers" by auto
    then show "wf_frame f \<and> index_name f \<notin> Some ` set (kept_fields f)"
      using sl by (rule assms(4))
  qed
  then show ?thesis
    unfolding download_and_write_excel_def Let_def pairs syms
    using assms(1-3) by (auto simp del: show_nat.simps)
qed

subsection \<open>The summary and the skip list\<close>

text \<open>
  Claim C5. Every run that returns has exactly one summary row per input ticker, in
  the order of the tickers, whatever the outcome of each; the note of a row is empty
  for a success, \<^verbatim>\<open>No data\<close> when the slice is absent or empty, and
  \<^verbatim>\<open>Empty after normalization\<close> when the slice is not empty and normalizes to no row.
\<close>

theorem summary_rows_follow_tickers:
  assumes "download_and_write_excel literal_eval loads response yf_download now = Inr res"
  shows "\<exists>tickers data.
       get_egx_tickers literal_eval loads response = Inr tickers
     \<and> yf_download (map (to_yf_symbol YF_SUFFIX) tickers) = Inr data
     \<and> map original_ticker (summary_df res) = tickers
     \<and> map note_text (summary_df res)
         = map (\<lambda>t. outcome_note (symbol_outcome data (to_yf_symbol YF_SUFFIX t))) tickers"
proof -
  from assms obtain tickers data acc where
    t: "get_egx_tickers literal_eval loads response = Inr tickers"
    and d: "yf_download tickers = Inr data"
    and p: "process_pairs data \<lparr>sheets = [], summary_rows = [], skipped = []\<rparr>
              (map (\<lambda>t. (t, t)) tickers) = Inr acc"
    and s: "summary_df res = summary_rows acc"
    by (rule download_and_write_excel_result)
  from process_pairs_result[OF p]
  have "map original_ticker (summary_rows acc) = tickers"
    and "map note_text (summary_rows acc)
         = map (\<lambda>t. outcome_note (symbol_outcome data t)) tickers"
    by (simp_all add: comp_def)
  with t d s show ?thesis
    by (intro exI[of _ tickers] exI[of _ data]) (simp add: to_yf_symbol_identity)
qed

theorem summary_rows_follow_tickers_witness:
  "download_and_write_excel ast_literal_eval json_loads (Inr ''['CCC', 'AAA', 'BBB']'')
     (\<lambda>syms. Inr (Some example_download)) ''20240105_0900''
   = Inr 
     (\<lparr>excel_sheets = [(''AAA'', \<lparr>index_name = None, columns = COLS,
            rows = [(0, [Some 1, None, None, None, Some 10, Some 10, None]),
                    (1, [Some 2, None, None, None, Some 11, Some 11, None])]\<rparr>)],
          excel_summary = [\<lparr>original_ticker = ''AAA'', yf_symbol = ''AAA'', n_rows = 2,
                first_date = Some 1, last_date = Some 2, note_text = []\<rparr>,
              no_data_row ''BBB'' ''BBB'' ''No data'',
              no_data_row ''CCC'' ''CCC'' ''Empty after normalization''],
          summary_df = [\<lparr>original_ticker = ''AAA'', yf_symbol = ''AAA'', n_rows = 2,
                first_date = Some 1, last_date = Some 2, note_text = []\<rparr>,
              no_data_row ''BBB'' ''BBB'' ''No data'',
              no_data_row ''CCC'' ''CCC'' ''Empty after normalization''],
          skipped_tickers = [''BBB'', ''CCC''],
          output_xlsx = ''egx_ohlcv_90d_20240105_0900.xlsx''\<rparr> :: int pipeline_result)
   \<and> map original_ticker (summary_df 
     (\<lparr>excel_sheets = [(''AAA'', \<lparr>index_name = None, columns = COLS,
            rows = [(0, [Some 1, None, None, None, Some 10, Some 10, None]),
                    (1, [Some 2, None, None, None, Some 11, Some 11, None])]\<rparr>)],
          excel_summary = [\<lparr>original_ticker = ''AAA'', yf_symbol = ''AAA'', n_rows = 2,
                first_date = Some 1, last_date = Some 2, note_text = []\<rparr>,
              no_data_row ''BBB'' ''BBB'' ''No data'',
              no_data_row ''CCC'' ''CCC'' ''Empty after normalization''],
          summary_df = [\<lparr>original_ticker = ''AAA'', yf_symbol = ''AAA'', n_rows = 2,
                first_date = Some 1, last_date = Some 2, note_text = []\<rparr>,
              no_data_row ''BBB'' ''BBB'' ''No data'',
              no_data_row ''CCC'' ''CCC'' ''Empty after normalization''],
          skipped_tickers = [''BBB'', ''CCC''],
          output_xlsx = ''egx_ohlcv_90d_20240105_0900.xlsx''\<rparr> :: int pipeline_result)) = [''AAA'', ''BBB'', ''CCC'']
   \<and> map note_text (summary_df 
     (\<lparr>excel_sheets = [(''AAA'', \<lparr>index_name = None, columns = COLS,
            rows = [(0, [Some 1, None, None, None, Some 10, Some 10, None]),
                    (1, [Some 2, None, None, None, Some 11, Some 11, None])]\<rparr>)],
          excel_summary = [\<lparr>original_ticker = ''AAA'', yf_symbol = ''AAA'', n_rows = 2,
                first_date = Some 1, last_date = Some 2, note_text = []\<rparr>,
              no_data_row ''BBB'' ''BBB'' ''No data'',
              no_data_row ''CCC'' ''CCC'' ''Empty after normalization''],
          summary_df = [\<lparr>original_ticker = ''AAA'', yf_symbol = ''AAA'', n_rows = 2,
                first_date = Some 1, last_date = Some 2, note_text = []\<rparr>,
              no_data_row ''BBB'' ''BBB'' ''No data'',
              no_data_row ''CCC'' ''CCC'' ''Empty after normalization''],
          skipped_tickers = [''BBB'', ''CCC''],
          output_xlsx = ''egx_ohlcv_90d_20240105_0900.xlsx''\<rparr> :: int pipeline_result)) = [[], ''No data'', ''Empty after normalization'']"
proof -
  let ?res = "
     (\<lparr>excel_sheets = [(''AAA'', \<lparr>index_name = None, columns = COLS,
            rows = [(0, [Some 1, None, None, None, Some 10, Some 10, None]),
                    (1, [Some 2, None, None, None, Some 11, Some 11, None])]\<rparr>)],
          excel_summary = [\<lparr>original_ticker = ''AAA'', yf_symbol = ''AAA'', n_rows = 2,
                first_date = Some 1, last_date = Some 2, note_text = []\<rparr>,
              no_data_row ''BBB'' ''BBB'' ''No data'',
              no_data_row ''CCC'' ''CCC'' ''Empty after normalization''],
          summary_df = [\<lparr>original_ticker = ''AAA'', yf_symbol = ''AAA'', n_rows = 2,
                first_date = Some 1, last_date = Some 2, note_text = []\<rparr>,
              no_data_row ''BBB'' ''BBB'' ''No data'',
              no_data_row ''CCC'' ''CCC'' ''Empty after normalization''],
          skipped_tickers = [''BBB'', ''CCC''],
          output_xlsx = ''egx_ohlcv_90d_20240105_0900.xlsx''\<rparr> :: int pipeline_result)"
  have run: "download_and_write_excel ast_literal_eval json_loads (Inr ''['CCC', 'AAA', 'BBB']'')
     (\<lambda>syms. Inr (Some example_download)) ''20240105_0900'' = Inr ?res"
    by code_simp
  from summary_rows_follow_tickers[OF run] obtain tickers data where
    t: "get_egx_tickers ast_literal_eval json_loads (Inr ''['CCC', 'AAA', 'BBB']'') = Inr tickers"
    and d: "Inr (Some example_download) = (Inr data :: pyexn + int dataframe option)"
    and o: "map original_ticker (summary_df ?res) = tickers"
    and n: "map note_text (summary_df ?res)
         = map (\<lambda>t. outcome_note (symbol_outcome data (to_yf_symbol YF_SUFFIX t))) tickers"
    by (elim exE conjE)
  have "get_egx_tickers ast_literal_eval json_loads (Inr ''['CCC', 'AAA', 'BBB']'') = Inr [''AAA'', ''BBB'', ''CCC'']"
    by code_simp
  with t have tickers: "tickers = [''AAA'', ''BBB'', ''CCC'']" by simp
  from d have data: "data = Some example_download" by simp
  have "map (\<lambda>t. outcome_note (symbol_outcome (Some example_download) (to_yf_symbol YF_SUFFIX t)))
          [''AAA'', ''BBB'', ''CCC''] = [[], ''No data'', ''Empty after normalization'']"
    by code_simp
  then have "map note_text (summary_df ?res) = [[], ''No data'', ''Empty after normalization'']"
    by (simp only: n tickers data)
  moreover have "map original_ticker (summary_df ?res) = [''AAA'', ''BBB'', ''CCC'']"
    by (simp only: o tickers)
  ultimately show ?thesis using run by (intro conjI)
qed

text \<open>
  Claim C2. For every run that returns, the skip list is the list of the input
  tickers whose outcome is \<open>NoData\<close> or \<open>EmptyAfterNormalization\<close>, in the order of the
  tickers, and nothing else. (The program appends the provider symbol, which is the
  ticker itself under the configured empty suffix.)
\<close>

theorem skipped_are_the_tickers_without_data:
  assumes "download_and_write_excel literal_eval loads response yf_download now = Inr res"
  shows "\<exists>tickers data.
       get_egx_tickers literal_eval loads response = Inr tickers
     \<and> yf_download (map (to_yf_symbol YF_SUFFIX) tickers) = Inr data
     \<and> skipped_tickers res
         = filter (\<lambda>t. symbol_outcome data (to_yf_symbol YF_SUFFIX t) = NoData
                     \<or> symbol_outcome data (to_yf_symbol YF_SUFFIX t) = EmptyAfterNormalization)
             tickers"
proof -
  from assms obtain tickers data acc where
    t: "get_egx_tickers literal_eval loads response = Inr tickers"
    and d: "yf_download tickers = Inr data"
    and p: "process_pairs data \<lparr>sheets = [], summary_rows = [], skipped = []\<rparr>
              (map (\<lambda>t. (t, t)) tickers) = Inr acc"
    and s: "skipped_tickers res = skipped acc"
    by (rule download_and_write_excel_result)
  have o: "(x \<noteq> Success) = (x = NoData \<or> x = EmptyAfterNormalization)" for x
    by (cases x) simp_all
  from process_pairs_result[OF p]
  have "skipped acc = filter (\<lambda>t. symbol_outcome data t \<noteq> Success) tickers"
    by (simp add: filter_map comp_def)
  with t d s show ?thesis
    by (intro exI[of _ tickers] exI[of _ data]) (simp add: o to_yf_symbol_identity)
qed

theorem skipped_are_the_tickers_without_data_witness:
  "download_and_write_excel ast_literal_eval json_loads (Inr ''['CCC', 'AAA', 'BBB']'')
     (\<lambda>syms. Inr (Some example_download)) ''20240105_0900''
   = Inr 
     (\<lparr>excel_sheets = [(''AAA'', \<lparr>index_name = None, columns = COLS,
            rows = [(0, [Some 1, None, None, None, Some 10, Some 10, None]),
                    (1, [Some 2, None, None, None, Some 11, Some 11, None])]\<rparr>)],
          excel_summary = [\<lparr>original_ticker = ''AAA'', yf_symbol = ''AAA'', n_rows = 2,
                first_date = Some 1, last_date = Some 2, note_text = []\<rparr>,
              no_data_row ''BBB'' ''BBB'' ''No data'',
              no_data_row ''CCC'' ''CCC'' ''Empty after normalization''],
          summary_df = [\<lparr>original_ticker = ''AAA'', yf_symbol = ''AAA'', n_rows = 2,
                first_date = Some 1, last_date = Some 2, note_text = []\<rparr>,
              no_data_row ''BBB'' ''BBB'' ''No data'',
              no_data_row ''CCC'' ''CCC'' ''Empty after normalization''],
          skipped_tickers = [''BBB'', ''CCC''],
          output_xlsx = ''egx_ohlcv_90d_20240105_0900.xlsx''\<rparr> :: int pipeline_result)
   \<and> skipped_tickers 
     (\<lparr>excel_sheets = [(''AAA'', \<lparr>index_name = None, columns = COLS,
            rows = [(0, [Some 1, None, None, None, Some 10, Some 10, None]),
                    (1, [Some 2, None, None, None, Some 11, Some 11, None])]\<rparr>)],
          excel_summary = [\<lparr>original_ticker = ''AAA'', yf_symbol = ''AAA'', n_rows = 2,
                first_date = Some 1, last_date = Some 2, note_text = []\<rparr>,
              no_data_row ''BBB'' ''BBB'' ''No data'',
              no_data_row ''CCC'' ''CCC'' ''Empty after normalization''],
          summary_df = [\<lparr>original_ticker = ''AAA'', yf_symbol = ''AAA'', n_rows = 2,
                first_date = Some 1, last_date = Some 2, note_text = []\<rparr>,
              no_data_row ''BBB'' ''BBB'' ''No data'',
              no_data_row ''CCC'' ''CCC'' ''Empty after normalization''],
          skipped_tickers = [''BBB'', ''CCC''],
          output_xlsx = ''egx_ohlcv_90d_20240105_0900.xlsx''\<rparr> :: int pipeline_result) = [''BBB'', ''CCC'']
   \<and> symbol_outcome (Some example_download) ''AAA'' = Success
   \<and> symbol_outcome (Some example_download) ''BBB'' = NoData
   \<and> symbol_outcome (Some example_download) ''CCC'' = EmptyAfterNormalization"
proof -
  let ?res = "
     (\<lparr>excel_sheets = [(''AAA'', \<lparr>index_name = None, columns = COLS,
            rows = [(0, [Some 1, None, None, None, Some 10, Some 10, None]),
                    (1, [Some 2, None, None, None, Some 11, Some 11, None])]\<rparr>)],
          excel_summary = [\<lparr>original_ticker = ''AAA'', yf_symbol = ''AAA'', n_rows = 2,
                first_date = Some 1, last_date = Some 2, note_text = []\<rparr>,
              no_data_row ''BBB'' ''BBB'' ''No data'',
              no_data_row ''CCC'' ''CCC'' ''Empty after normalization''],
          summary_df = [\<lparr>original_ticker = ''AAA'', yf_symbol = ''AAA'', n_rows = 2,
                first_date = Some 1, last_date = Some 2, note_text = []\<rparr>,
              no_data_row ''BBB'' ''BBB'' ''No data'',
              no_data_row ''CCC'' ''CCC'' ''Empty after normalization''],
          skipped_tickers = [''BBB'', ''CCC''],
          output_xlsx = ''egx_ohlcv_90d_20240105_0900.xlsx''\<rparr> :: int pipeline_result)"
  have run: "download_and_write_excel ast_literal_eval json_loads (Inr ''['CCC', 'AAA', 'BBB']'')
     (\<lambda>syms. Inr (Some example_download)) ''20240105_0900'' = Inr ?res"
    by code_simp
  from skipped_are_the_tickers_without_data[OF run] obtain tickers data where
    t: "get_egx_tickers ast_literal_eval json_loads (Inr ''['CCC', 'AAA', 'BBB']'') = Inr tickers"
    and d: "Inr (Some example_download) = (Inr data :: pyexn + int dataframe option)"
    and s: "skipped_tickers ?res
         = filter (\<lambda>t. symbol_outcome data (to_yf_symbol YF_SUFFIX t) = NoData
                     \<or> symbol_outcome data (to_yf_symbol YF_SUFFIX t) = EmptyAfterNormalization)
             tickers"
    by (elim exE conjE)
  have "get_egx_tickers ast_literal_eval json_loads (Inr ''['CCC', 'AAA', 'BBB']'') = Inr [''AAA'', ''BBB'', ''CCC'']"
    by code_simp
  with t have tickers: "tickers = [''AAA'', ''BBB'', ''CCC'']" by simp
  from d have data: "data = Some example_download" by simp
  have o1: "symbol_outcome (Some example_download) ''AAA'' = Success"
    by code_simp
  have o2: "symbol_outcome (Some example_download) ''BBB'' = NoData"
    by code_simp
  have o3: "symbol_outcome (Some example_download) ''CCC'' = EmptyAfterNormalization"
    by code_simp
  have "filter (\<lambda>t. symbol_outcome (Some example_download) (to_yf_symbol YF_SUFFIX t) = NoData
                     \<or> symbol_outcome (Some example_download) (to_yf_symbol YF_SUFFIX t)
                          = EmptyAfterNormalization)
          [''AAA'', ''BBB'', ''CCC''] = [''BBB'', ''CCC'']"
    by (simp add: o1 o2 o3)
  then have "skipped_tickers ?res = [''BBB'', ''CCC'']"
    by (simp only: s tickers data)
  then show ?thesis using run o1 o2 o3 by (intro conjI)
qed

section \<open>The errors of TickerListParser\<close>

text \<open>
  Whatever the two library parsers are, an exception that \<^verbatim>\<open>json.loads\<close> raises inside
  the handler leaves the function as it is.
\<close>

lemma get_egx_tickers_handler_raises:
  assumes "literal_eval (strip text) = Inl e"
    and "re_search_brackets (strip text) = Some m"
    and "loads (replace m squote dquote) = Inl e'"
  shows "get_egx_tickers literal_eval loads (Inr text) = Inl e'"
  using assms by (simp add: get_egx_tickers_def Let_def)

lemma py_iter_raises: "py_iter v = Inl e \<Longrightarrow> e = TypeError"
  by (cases v rule: py_iter.cases) simp_all

text \<open>
  The parser fails with the \<^verbatim>\<open>RuntimeError\<close> of the program exactly when the strict
  parse returns something that is not a list or is the empty list, or the strict parse
  raises and the text has no bracketed span, or one for which \<^verbatim>\<open>json.loads\<close> returns a
  value that counts as false or raises that very error.
\<close>

lemma get_egx_tickers_runtime_error:
  "get_egx_tickers literal_eval loads (Inr text)
     = Inl (RuntimeError ''Ticker list parsing failed or returned empty.'')
   \<longleftrightarrow> (case literal_eval (strip text) of
          Inr v \<Rightarrow> \<not> isinstance_list v \<or> v = PyList []
        | Inl e \<Rightarrow>
            (case re_search_brackets (strip text) of
               None \<Rightarrow> True
             | Some m \<Rightarrow>
                 (case loads (replace m squote dquote) of
                    Inr v \<Rightarrow> \<not> truthy v
                  | Inl e' \<Rightarrow>
                      e' = RuntimeError ''Ticker list parsing failed or returned empty.'')))"
proof (cases "literal_eval (strip text)")
  case (Inr v)
  then show ?thesis
    by (cases v) (auto simp: get_egx_tickers_def Let_def)
next
  case (Inl e)
  show ?thesis
  proof (cases "re_search_brackets (strip text)")
    case None
    with Inl show ?thesis by (simp add: get_egx_tickers_def Let_def)
  next
    case (Some m)
    show ?thesis
    proof (cases "loads (replace m squote dquote)")
      case l: (Inl e')
      with Inl Some show ?thesis by (simp add: get_egx_tickers_def Let_def)
    next
      case r: (Inr v)
      show ?thesis
      proof (cases "truthy v")
        case True
        with Inl Some r show ?thesis
          by (cases "py_iter v")
            (auto simp: get_egx_tickers_def Let_def dest: py_iter_raises)
      next
        case False
        with Inl Some r show ?thesis by (simp add: get_egx_tickers_def Let_def)
      qed
    qed
  qed
qed

text \<open>
  The three failures the specification lists: the empty text, a text without a
  bracketed span, and a span that holds the empty list.
\<close>

lemma get_egx_tickers_no_span:
  assumes "literal_eval (strip text) = Inl e" and "re_search_brackets (strip text) = None"
  shows "get_egx_tickers literal_eval loads (Inr text)
     = Inl (RuntimeError ''Ticker list parsing failed or returned empty.'')"
  using assms by (simp add: get_egx_tickers_def Let_def)

lemma get_egx_tickers_listed_failures:
  "get_egx_tickers ast_literal_eval json_loads (Inr [])
     = Inl (RuntimeError ''Ticker list parsing failed or returned empty.'')"
  "get_egx_tickers ast_literal_eval json_loads (Inr ''COMI'')
     = Inl (RuntimeError ''Ticker list parsing failed or returned empty.'')"
  "get_egx_tickers ast_literal_eval json_loads (Inr ''tickers = [ ];'')
     = Inl (RuntimeError ''Ticker list parsing failed or returned empty.'')"
  by code_simp+

section \<open>When the normalizer raises\<close>

text \<open>
  A series whose index is named like one of the fields it keeps makes
  \<^verbatim>\<open>reset_index\<close> raise; with \<open>normalize_ohlcv_eq\<close> this settles every well-formed series.
\<close>

lemma normalize_ohlcv_raises:
  fixes f :: "('a::linorder) series"
  assumes "index_name f = Some n" and "n \<in> set (kept_fields f)"
  shows "normalize_ohlcv f = Inl ValueError"
proof -
  define step1 where "step1 =
     (if ''Adj Close'' \<notin> set (columns f) \<and> ''Close'' \<in> set (columns f)
      then map_sum id (setitem_new f ''Adj Close'') (getitem_column f ''Close'')
      else Inr f)"
  obtain df1 where df1: "step1 = Inr df1"
    and keep: "filter (\<lambda>c. c \<in> set (columns df1)) OHLCV = kept_fields f"
    and nm: "index_name df1 = Some n"
  proof (cases "''Adj Close'' \<notin> set (columns f) \<and> ''Close'' \<in> set (columns f)")
    case True
    let ?d = "setitem_new f ''Adj Close''
                (map (\<lambda>(i, cells). cell_at (columns f) cells ''Close'') (rows f))"
    have "step1 = Inr ?d" using True by (simp add: step1_def getitem_column_def)
    moreover have "filter (\<lambda>c. c \<in> set (columns ?d)) OHLCV = kept_fields f"
      using True by (auto simp: setitem_new_def kept_fields_def intro!: filter_cong)
    moreover have "index_name ?d = Some n" using assms(1) by (simp add: setitem_new_def)
    ultimately show ?thesis by (rule that)
  next
    case False
    have "step1 = Inr f" using False by (auto simp: step1_def)
    moreover have "filter (\<lambda>c. c \<in> set (columns f)) OHLCV = kept_fields f"
      using False by (auto simp: kept_fields_def intro!: filter_cong)
    ultimately show ?thesis using assms(1) by (rule that)
  qed
  have "set (filter (\<lambda>c. c \<in> set (columns df1)) OHLCV) \<subseteq> set (columns df1)" by auto
  then have sub: "set (kept_fields f) \<subseteq> set (columns df1)" by (simp only: keep)
  define df2 where "df2 = df1\<lparr>columns := kept_fields f,
      rows := map (\<lambda>(i, cells). (i, map (cell_at (columns df1) cells) (kept_fields f))) (rows df1)\<rparr>"
  have sel: "getitem_list df1 (kept_fields f) = Inr df2"
    using sub by (simp add: getitem_list_def df2_def)
  have rst: "reset_index (dropna df2) = Inl ValueError"
    using assms(2) nm by (simp add: reset_index_def dropna_def df2_def)
  show ?thesis
    unfolding normalize_ohlcv_def step1_def[symmetric] df1
    by (simp add: keep sel rst)
qed

end
